theory Spec2Isabelle
  imports Complex_Main
begin

section \<open>The signal endpoint (src/pages/api/signal.ts)\<close>

text \<open>
  A shallow embedding of the news-sentiment signal computation. JavaScript numbers are
  modelled as real numbers (rounding error of the binary floating-point format is not
  part of the model); instants are integers, the milliseconds of \<^verbatim>\<open>Date.getTime()\<close>;
  strings are lists of characters.
\<close>

subsection \<open>Data model\<close>

datatype Sentiment = positive | negative | neutral

datatype Recommendation = LONG | SHORT | NEUTRAL

record SentimentScore =
  label :: Sentiment
  score :: real

text \<open>An output item. \<open>item_pubDate\<close> is the instant that the ISO string of the source denotes.\<close>

record SignalItem =
  item_title :: string
  item_link :: string
  item_pubDate :: int
  item_source :: string
  item_sentiment :: Sentiment
  item_score :: real
  item_weight :: real

record Counts =
  count_positive :: nat
  count_negative :: nat
  count_neutral :: nat

record Weights =
  weights_posW :: real
  weights_negW :: real
  weights_neuW :: real

text \<open>
  The response body. \<open>windowMinutes\<close> is \<open>None\<close> where the source holds NaN (an invalid
  start of day).
\<close>

record SignalResponse =
  windowMinutes :: "int option"
  timezoneOffsetMinutes :: real
  generatedAt :: int
  counts :: Counts
  weights :: Weights
  longPct :: int
  shortPct :: int
  recommendation :: Recommendation
  items :: "SignalItem list"

subsection \<open>Numeric helpers\<close>

text \<open>\<^verbatim>\<open>Math.round\<close>: the nearest integer, a tie going up.\<close>

definition Math_round :: "real \<Rightarrow> int" where
  "Math_round x = \<lfloor>x + 1 / 2\<rfloor>"

text \<open>\<^verbatim>\<open>Math.sign\<close>.\<close>

definition Math_sign :: "real \<Rightarrow> real" where
  "Math_sign x = (if x > 0 then 1 else if x < 0 then - 1 else 0)"

text \<open>\<^verbatim>\<open>clamp(min, max, value) = Math.min(max, Math.max(min, value))\<close>.\<close>

definition clamp :: "real \<Rightarrow> real \<Rightarrow> real \<Rightarrow> real" where
  "clamp lo hi v = min hi (max lo v)"

definition toMinutesAgo :: "int \<Rightarrow> int \<Rightarrow> real" where
  "toMinutesAgo date now = real_of_int (now - date) / (1000 * 60)"

subsection \<open>Time decay\<close>

definition linearTimeDecay :: "real \<Rightarrow> real \<Rightarrow> real" where
  "linearTimeDecay minutesAgo W =
     (let safeWindow = max W 1;
          clamped = clamp 0 safeWindow minutesAgo;
          decay = 1 - (clamped / safeWindow) * 0.3
      in clamp 0.7 1 decay)"

definition decayWeight :: "int \<Rightarrow> int \<Rightarrow> real \<Rightarrow> real" where
  "decayWeight date now W =
     (let minutesAgo = toMinutesAgo date now
      in if minutesAgo < 0 \<or> minutesAgo > W then 0
         else linearTimeDecay minutesAgo W)"

subsection \<open>Strings\<close>

text \<open>
  \<^verbatim>\<open>toLowerCase\<close> on the ASCII letters. The source only looks for ASCII substrings in
  the lowered text, and no character outside ASCII lowers to one of their letters.
\<close>

definition toLowerChar :: "char \<Rightarrow> char" where
  "toLowerChar c =
     (if (65::nat) \<le> of_char c \<and> of_char c \<le> (90::nat)
      then char_of (of_char c + (32::nat)) else c)"

definition toLowerCase :: "string \<Rightarrow> string" where
  "toLowerCase s = map toLowerChar s"

fun startsWith :: "string \<Rightarrow> string \<Rightarrow> bool" where
  "startsWith s [] = True"
| "startsWith [] (p # ps) = False"
| "startsWith (c # cs) (p # ps) = (c = p \<and> startsWith cs ps)"

fun includes_str :: "string \<Rightarrow> string \<Rightarrow> bool" where
  "includes_str [] sub = (sub = [])"
| "includes_str (c # cs) sub = (startsWith (c # cs) sub \<or> includes_str cs sub)"

subsection \<open>Model sentiment\<close>

definition mapModelLabel :: "string \<Rightarrow> Sentiment" where
  "mapModelLabel l =
     (let lowered = toLowerCase l
      in if includes_str lowered ''pos'' then positive
         else if includes_str lowered ''neg'' then negative
         else if includes_str lowered ''neu'' then neutral
         else if lowered = ''label_2'' then positive
         else if lowered = ''label_0'' then negative
         else if lowered = ''label_1'' then neutral
         else neutral)"

text \<open>
  The per-class maxima of lines 473-483. An entry is a label and its probability;
  \<open>None\<close> is an entry whose \<^verbatim>\<open>score\<close> is not a number, counted as 0.
\<close>

type_synonym ClassifierOutput = "(string \<times> real option) list"

definition probsStep :: "(Sentiment \<Rightarrow> real) \<Rightarrow> string \<times> real option \<Rightarrow> (Sentiment \<Rightarrow> real)" where
  "probsStep probs entry =
     (let mapped = mapModelLabel (fst entry);
          v = (case snd entry of Some x \<Rightarrow> x | None \<Rightarrow> 0)
      in probs(mapped := max (probs mapped) v))"

definition classProbs :: "ClassifierOutput \<Rightarrow> (Sentiment \<Rightarrow> real)" where
  "classProbs outputs = foldl probsStep (\<lambda>_. 0) outputs"

text \<open>Lines 496-504: the result once the neutral branch has been passed.\<close>

definition directional :: "real \<Rightarrow> SentimentScore" where
  "directional diff =
     (if diff > 0 then \<lparr>label = positive, score = max 0.5 (diff * 5)\<rparr>
      else if diff < 0 then \<lparr>label = negative, score = - max 0.5 (\<bar>diff\<bar> * 5)\<rparr>
      else \<lparr>label = neutral, score = 0\<rparr>)"

text \<open>Lines 485-504, on the per-class maxima.\<close>

definition scoreFromProbs :: "(Sentiment \<Rightarrow> real) \<Rightarrow> SentimentScore" where
  "scoreFromProbs probs =
     (let diff = probs positive - probs negative;
          strongest = max (max (probs positive) (probs negative)) (probs neutral)
      in if strongest < 0.4 \<or> \<bar>diff\<bar> < 0.05
         then (if probs neutral \<ge> 0.4 \<and> probs neutral \<ge> probs positive
                  \<and> probs neutral \<ge> probs negative
               then \<lparr>label = neutral, score = 0\<rparr>
               else if \<bar>diff\<bar> < 0.05 then \<lparr>label = neutral, score = 0\<rparr>
               else directional diff)
         else directional diff)"

text \<open>
  \<^verbatim>\<open>scoreSentimentModel\<close>. The argument is what the classifier of the chosen track
  gave: \<open>None\<close> when there is no classifier or the call failed (the source returns
  \<^verbatim>\<open>null\<close> in both cases), else its output list.
\<close>

definition scoreSentimentModel :: "ClassifierOutput option \<Rightarrow> SentimentScore option" where
  "scoreSentimentModel r =
     (case r of
        None \<Rightarrow> None
      | Some outputs \<Rightarrow>
          if outputs = [] then None else Some (scoreFromProbs (classProbs outputs)))"

subsection \<open>Combining lexicon and model\<close>

definition labelFromScore :: "real \<Rightarrow> Sentiment" where
  "labelFromScore s = (if s > 0 then positive else if s < 0 then negative else neutral)"

definition combineSentiments :: "SentimentScore option \<Rightarrow> SentimentScore \<Rightarrow> SentimentScore" where
  "combineSentiments modelScore lexiconScore =
     (case modelScore of
        None \<Rightarrow> lexiconScore
      | Some m \<Rightarrow>
          if label m = neutral \<and> score lexiconScore \<noteq> 0 then lexiconScore
          else if score lexiconScore = 0 then m
          else if Math_sign (score m) = Math_sign (score lexiconScore)
          then (let combinedMagnitude = max \<bar>score m\<bar> \<bar>score lexiconScore\<bar>;
                    combinedScore =
                      Math_sign (if score m \<noteq> 0 then score m else score lexiconScore)
                        * combinedMagnitude
                in \<lparr>label = labelFromScore combinedScore, score = combinedScore\<rparr>)
          else if \<bar>score m\<bar> \<ge> \<bar>score lexiconScore\<bar> then m
          else lexiconScore)"

subsection \<open>Building the response\<close>

text \<open>
  \<^verbatim>\<open>buildResponse\<close>. \<open>W\<close> and \<open>tz\<close> are the parameters \<^verbatim>\<open>windowMinutes\<close> and
  \<^verbatim>\<open>timezoneOffsetMinutes\<close>, \<open>its\<close> is \<^verbatim>\<open>items\<close>, \<open>pW nW uW\<close> and \<open>pC nC uC\<close> the
  three weight sums and the three counts; \<open>clock\<close> is the instant read by
  \<^verbatim>\<open>new Date()\<close> for \<^verbatim>\<open>generatedAt\<close>.
\<close>

definition buildResponse ::
  "int \<Rightarrow> int option \<Rightarrow> real \<Rightarrow> SignalItem list \<Rightarrow> real \<Rightarrow> real \<Rightarrow> real \<Rightarrow> nat \<Rightarrow> nat \<Rightarrow> nat
     \<Rightarrow> SignalResponse" where
  "buildResponse clock W tz its pW nW uW pC nC uC =
     (let totalWeight = pW + nW + uW;
          directionalWeight = pW + nW;
          (longPct', shortPct') =
             (if directionalWeight > 0
              then (let rawLong = (pW / directionalWeight) * 100;
                        l = Math_round rawLong
                    in (l, 100 - l))
              else if totalWeight > 0 then (0, 0)
              else (0, 0));
          recommendation' =
             (if pW > nW * 1.05 then LONG
              else if nW > pW * 1.05 then SHORT
              else NEUTRAL)
      in \<lparr>windowMinutes = W,
          timezoneOffsetMinutes = tz,
          generatedAt = clock,
          counts = \<lparr>count_positive = pC, count_negative = nC, count_neutral = uC\<rparr>,
          weights = \<lparr>weights_posW = pW, weights_negW = nW, weights_neuW = uW\<rparr>,
          longPct = longPct',
          shortPct = shortPct',
          recommendation = recommendation',
          items = its\<rparr>)"

subsection \<open>The window of the day\<close>

text \<open>
  \<^verbatim>\<open>new Date(v)\<close> for a number \<open>v\<close>: the time value is cut to an integer towards zero,
  and the Date is invalid (\<open>None\<close>) beyond 8.64e15 milliseconds from the epoch.
\<close>

definition newDate :: "real \<Rightarrow> int option" where
  "newDate v =
     (if \<bar>v\<bar> > 8640000000000000 then None
      else Some (if v \<ge> 0 then \<lfloor>v\<rfloor> else \<lceil>v\<rceil>))"

definition msPerDay :: int where
  "msPerDay = 86400000"

subsection \<open>The calendar of the Date built-in\<close>

text \<open>
  The time-value functions of the language standard (ECMA-262, Time Values and Time
  Range), which the getters of a Date and \<^verbatim>\<open>Date.UTC\<close> compute.
\<close>

definition Day :: "int \<Rightarrow> int" where
  "Day t = t div msPerDay"

definition DaysInYear :: "int \<Rightarrow> int" where
  "DaysInYear y =
     (if y mod 4 \<noteq> 0 then 365 else if y mod 100 \<noteq> 0 then 366
      else if y mod 400 \<noteq> 0 then 365 else 366)"

definition DayFromYear :: "int \<Rightarrow> int" where
  "DayFromYear y =
     365 * (y - 1970) + (y - 1969) div 4 - (y - 1901) div 100 + (y - 1601) div 400"

text \<open>Each year has at least 365 days: the search below for the year of a day ends.\<close>

lemma div_step:
  fixes a k :: int
  assumes "0 < k"
  shows "(a + 1) div k = a div k + (if (a + 1) mod k = 0 then 1 else 0)"
proof -
  have r: "0 \<le> a mod k" "a mod k < k" using assms by simp_all
  have e: "a + 1 = k * (a div k) + (a mod k + 1)" by simp
  show ?thesis
  proof (cases "a mod k + 1 = k")
    case True
    then have "a + 1 = k * (a div k + 1)" using e by (simp add: algebra_simps)
    then show ?thesis using assms by simp
  next
    case False
    then have b: "0 \<le> a mod k + 1" "a mod k + 1 < k" using r by linarith+
    have d: "(a + 1) div k = a div k" using e b by (rule int_div_pos_eq)
    have "(a + 1) mod k = a mod k + 1" using e b by (rule int_mod_pos_eq)
    then have "(a + 1) mod k \<noteq> 0" using r by linarith
    then show ?thesis using d by simp
  qed
qed

lemma leap_facts:
  fixes y :: int
  shows "((y - 1968) mod 4 = 0) = (y mod 4 = 0)"
    and "((y - 1900) mod 100 = 0) = (y mod 100 = 0)"
    and "((y - 1600) mod 400 = 0) = (y mod 400 = 0)"
    and "y mod 100 = 0 \<Longrightarrow> y mod 4 = 0"
    and "y mod 400 = 0 \<Longrightarrow> y mod 100 = 0"
proof -
  have a: "y - 1968 = y + 4 * (- 492)" "y - 1900 = y + 100 * (- 19)" "y - 1600 = y + 400 * (- 4)"
    by simp_all
  show "((y - 1968) mod 4 = 0) = (y mod 4 = 0)" unfolding a(1) by (simp only: mod_mult_self2)
  show "((y - 1900) mod 100 = 0) = (y mod 100 = 0)" unfolding a(2) by (simp only: mod_mult_self2)
  show "((y - 1600) mod 400 = 0) = (y mod 400 = 0)" unfolding a(3) by (simp only: mod_mult_self2)
  have "(4::int) dvd 100" "(100::int) dvd 400" by simp_all
  then show "y mod 100 = 0 \<Longrightarrow> y mod 4 = 0" "y mod 400 = 0 \<Longrightarrow> y mod 100 = 0"
    by (auto simp only: mod_eq_0_iff_dvd elim: dvd_trans)
qed

lemma DayFromYear_Suc: "DayFromYear (y + 1) = DayFromYear y + DaysInYear y"
proof -
  define a where "a = (y - 1969) div 4"
  define b where "b = (y - 1901) div 100"
  define c where "c = (y - 1601) div 400"
  define a' where "a' = (y - 1968) div 4"
  define b' where "b' = (y - 1900) div 100"
  define c' where "c' = (y - 1600) div 400"
  have a: "a' = a + (if y mod 4 = 0 then 1 else 0)"
    unfolding a_def a'_def using div_step [of 4 "y - 1969"] leap_facts(1) [of y] by simp
  have b: "b' = b + (if y mod 100 = 0 then 1 else 0)"
    unfolding b_def b'_def using div_step [of 100 "y - 1901"] leap_facts(2) [of y] by simp
  have c: "c' = c + (if y mod 400 = 0 then 1 else 0)"
    unfolding c_def c'_def using div_step [of 400 "y - 1601"] leap_facts(3) [of y] by simp
  have l: "DayFromYear (y + 1) = 365 * (y - 1969) + a' - b' + c'"
    by (simp add: DayFromYear_def a'_def b'_def c'_def)
  have r: "DayFromYear y = 365 * (y - 1970) + a - b + c"
    by (simp add: DayFromYear_def a_def b_def c_def)
  have m: "y mod 100 = 0 \<longrightarrow> y mod 4 = 0" "y mod 400 = 0 \<longrightarrow> y mod 100 = 0"
    using leap_facts(4,5) [of y] by blast+
  show ?thesis
    unfolding l r a b c DaysInYear_def using m by (simp split: if_splits)
qed

lemma DayFromYear_step: "DayFromYear y + 365 \<le> DayFromYear (y + 1)"
  by (simp add: DayFromYear_Suc DaysInYear_def)

text \<open>
  The standard's \<^verbatim>\<open>YearFromTime\<close> is the largest year that starts at or before the
  instant. It is computed here by going up from a year that is not too late.
\<close>

function yearClimb :: "int \<Rightarrow> int \<Rightarrow> int" where
  "yearClimb d y = (if DayFromYear (y + 1) \<le> d then yearClimb d (y + 1) else y)"
  by pat_completeness auto
termination
proof (relation "measure (\<lambda>(d, y). nat (d + 1 - DayFromYear (y + 1)))")
  show "wf (measure (\<lambda>(d, y). nat (d + 1 - DayFromYear (y + 1))))" by simp
next
  fix d y :: int
  assume "DayFromYear (y + 1) \<le> d"
  then show "((d, y + 1), (d, y)) \<in> measure (\<lambda>(d, y). nat (d + 1 - DayFromYear (y + 1)))"
    using DayFromYear_step [of "y + 1"] by simp
qed

declare yearClimb.simps [simp del]

definition YearFromDay :: "int \<Rightarrow> int" where
  "YearFromDay d = yearClimb d (1970 + (if d \<ge> 0 then d div 366 else d div 365))"

definition YearFromTime :: "int \<Rightarrow> int" where
  "YearFromTime t = YearFromDay (Day t)"

definition InLeapYear :: "int \<Rightarrow> int" where
  "InLeapYear t = DaysInYear (YearFromTime t) - 365"

definition DayWithinYear :: "int \<Rightarrow> int" where
  "DayWithinYear t = Day t - DayFromYear (YearFromTime t)"

text \<open>The day of the year on which month \<open>m\<close> (0 to 11) starts; \<open>l\<close> is 1 in a leap year.\<close>

definition monthStart :: "int \<Rightarrow> int \<Rightarrow> int" where
  "monthStart l m =
     (if m = 0 then 0 else if m = 1 then 31 else if m = 2 then 59 + l
      else if m = 3 then 90 + l else if m = 4 then 120 + l else if m = 5 then 151 + l
      else if m = 6 then 181 + l else if m = 7 then 212 + l else if m = 8 then 243 + l
      else if m = 9 then 273 + l else if m = 10 then 304 + l else 334 + l)"

definition MonthFromTime :: "int \<Rightarrow> int" where
  "MonthFromTime t =
     (let d = DayWithinYear t; l = InLeapYear t
      in if d < 31 then 0 else if d < 59 + l then 1 else if d < 90 + l then 2
         else if d < 120 + l then 3 else if d < 151 + l then 4 else if d < 181 + l then 5
         else if d < 212 + l then 6 else if d < 243 + l then 7 else if d < 273 + l then 8
         else if d < 304 + l then 9 else if d < 334 + l then 10 else 11)"

text \<open>
  The standard gives \<^verbatim>\<open>DateFromTime\<close> month by month (the day of the year plus 1, minus
  30, minus 58 and the leap day, and so on): the day of the year plus 1, less the start of
  the month.
\<close>

definition DateFromTime :: "int \<Rightarrow> int" where
  "DateFromTime t = DayWithinYear t + 1 - monthStart (InLeapYear t) (MonthFromTime t)"

definition MakeDay :: "int \<Rightarrow> int \<Rightarrow> int \<Rightarrow> int" where
  "MakeDay year month date =
     (let ym = year + month div 12;
          mn = month mod 12
      in DayFromYear ym + monthStart (DaysInYear ym - 365) mn + date - 1)"

definition MakeFullYear :: "int \<Rightarrow> int" where
  "MakeFullYear y = (if 0 \<le> y \<and> y \<le> 99 then 1900 + y else y)"

text \<open>
  \<^verbatim>\<open>Date.UTC(year, month, date, 0, 0, 0, 0)\<close>. A year from 0 to 99 is read as 1900 to
  1999. On the fields of a valid Date the result is in the range of valid time values.
\<close>

definition Date_UTC :: "int \<Rightarrow> int \<Rightarrow> int \<Rightarrow> int" where
  "Date_UTC year month date = MakeDay (MakeFullYear year) month date * msPerDay"


text \<open>
  \<^verbatim>\<open>computeTimezoneStartOfDay\<close>. \<open>offsetMinutes\<close> is \<open>None\<close> for a number that is not
  finite.
\<close>

definition computeTimezoneStartOfDay :: "int \<Rightarrow> real option \<Rightarrow> int option" where
  "computeTimezoneStartOfDay date offsetMinutes =
     (let offset = (case offsetMinutes of Some x \<Rightarrow> x | None \<Rightarrow> 0)
      in case newDate (real_of_int date + offset * 60 * 1000) of
           None \<Rightarrow> None
         | Some shifted \<Rightarrow>
             (let tzMidnightUTC =
                    Date_UTC (YearFromTime shifted) (MonthFromTime shifted)
                      (DateFromTime shifted)
              in newDate (real_of_int tzMidnightUTC - offset * 60 * 1000)))"

text \<open>Lines 660-667 of the handler: \<^verbatim>\<open>windowMinutes\<close>; \<open>None\<close> is NaN.\<close>

definition handlerWindowMinutes :: "int \<Rightarrow> real option \<Rightarrow> int option" where
  "handlerWindowMinutes now tz =
     (case computeTimezoneStartOfDay now tz of
        None \<Rightarrow> None
      | Some startOfDay \<Rightarrow>
          Some (max 1 (Math_round (real_of_int (now - startOfDay) / (1000 * 60)))))"



subsection \<open>The platform\<close>

text \<open>
  A parsed URL, as far as the source looks at it: the query (without its question mark),
  the fragment (without its hash sign), the host name, and the rest (scheme, credentials,
  port and path).
\<close>

record URL =
  url_rest :: string
  hostname :: string
  url_query :: "string option"
  url_fragment :: "string option"

text \<open>
  The built-in functions of the JavaScript platform that the source calls and that are
  no part of the repository: the URL parser (\<open>None\<close> when \<^verbatim>\<open>new URL\<close> throws) and
  serializer, the parser and the serializer of \<^verbatim>\<open>URLSearchParams\<close>, and the date
  parser (\<open>None\<close> for an invalid Date).
\<close>

record Platform =
  URL_parse :: "string \<Rightarrow> URL option"
  URL_toString :: "URL \<Rightarrow> string"
  URLSearchParams_parse :: "string \<Rightarrow> (string \<times> string) list"
  URLSearchParams_toString :: "(string \<times> string) list \<Rightarrow> string"
  Date_parse :: "string \<Rightarrow> int option"

definition searchParams :: "Platform \<Rightarrow> URL \<Rightarrow> (string \<times> string) list" where
  "searchParams pf u =
     (case url_query u of None \<Rightarrow> [] | Some q \<Rightarrow> URLSearchParams_parse pf q)"

subsection \<open>Link normalisation\<close>

text \<open>Lines 563-568: the parameters kept, in their order.\<close>

definition keepParams :: "(string \<times> string) list \<Rightarrow> (string \<times> string) list" where
  "keepParams ps = filter (\<lambda>(k, v). \<not> startsWith (toLowerCase k) ''utm_'') ps"

text \<open>
  Lines 569-570: the URL after the two assignments. The setter of \<^verbatim>\<open>search\<close> removes the
  query for the empty string; the serializer's text has no character that the setter
  would encode, so it is stored as it is. The setter of \<^verbatim>\<open>hash\<close> removes the fragment
  for the empty string. (For a URL with an opaque path, as of the schemes \<^verbatim>\<open>mailto\<close> and
  \<^verbatim>\<open>data\<close>, the setters may also drop blanks at the end of the path; the links of feeds
  have the schemes http and https, where the rest of the URL is left as it is.)
\<close>

definition strippedURL :: "Platform \<Rightarrow> URL \<Rightarrow> URL" where
  "strippedURL pf u =
     (let s = URLSearchParams_toString pf (keepParams (searchParams pf u))
      in u\<lparr>url_query := (if s = [] then None else Some s), url_fragment := None\<rparr>)"

definition normalizeLink :: "Platform \<Rightarrow> string \<Rightarrow> string" where
  "normalizeLink pf url =
     (case URL_parse pf url of
        None \<Rightarrow> url
      | Some u \<Rightarrow> URL_toString pf (strippedURL pf u))"

subsection \<open>Lexicon sentiment\<close>

definition POSITIVE_WORDS :: "string list" where
  "POSITIVE_WORDS =
     [''gain'', ''gains'', ''rally'', ''bull'', ''bullish'', ''surge'', ''surges'',
      ''breakout'', ''record'', ''all-time'', ''positive'', ''upgrade'', ''outperform'',
      ''buy'', ''accumulate'', ''support'', ''uptrend'', ''rebound'', ''recover'',
      ''green'', ''approve'', ''approval'', ''approved'', ''adopt'', ''adoption'',
      ''partnership'', ''investment'', ''invest'', ''funding'', ''etf'', ''listing'']"

definition NEGATIVE_WORDS :: "string list" where
  "NEGATIVE_WORDS =
     [''drop'', ''drops'', ''fall'', ''falls'', ''bear'', ''bearish'', ''plunge'',
      ''crash'', ''selloff'', ''sell-off'', ''decline'', ''downtrend'', ''negative'',
      ''downgrade'', ''underperform'', ''sell'', ''resistance'', ''reject'',
      ''rejection'', ''ban'', ''lawsuit'', ''probe'', ''fraud'', ''hack'', ''exploit'',
      ''scam'', ''fud'', ''outflow'', ''liquidation'', ''liquidations'', ''insolvency'',
      ''bankrupt'', ''delist'', ''concern'', ''steal'', ''steals'', ''stole'', ''stolen'',
      ''theft'']"

text \<open>The characters of the class \<^verbatim>\<open>[a-z0-9-]\<close>.\<close>

definition isTokenChar :: "char \<Rightarrow> bool" where
  "isTokenChar c =
     (let n = (of_char c :: nat)
      in (97 \<le> n \<and> n \<le> 122) \<or> (48 \<le> n \<and> n \<le> 57) \<or> n = 45)"

text \<open>
  \<^verbatim>\<open>tokenize\<close>: after lowering, every run of other characters becomes a blank and the
  text is split at white space, empty pieces dropped; so the tokens are the maximal runs
  of token characters. \<open>cur\<close> is the token being read, reversed.
\<close>

fun splitTokens :: "string \<Rightarrow> string \<Rightarrow> string list" where
  "splitTokens cur [] = (if cur = [] then [] else [rev cur])"
| "splitTokens cur (c # cs) =
     (if isTokenChar c then splitTokens (c # cur) cs
      else if cur = [] then splitTokens [] cs
      else rev cur # splitTokens [] cs)"

definition tokenize :: "string \<Rightarrow> string list" where
  "tokenize text = splitTokens [] (toLowerCase text)"

definition scoreSentimentLexicon :: "string \<Rightarrow> string \<Rightarrow> SentimentScore" where
  "scoreSentimentLexicon title snippet =
     (let tokens = tokenize (title @ '' '' @ snippet);
          pos = int (length (filter (\<lambda>t. t \<in> set POSITIVE_WORDS) tokens));
          neg = int (length (filter (\<lambda>t. t \<in> set NEGATIVE_WORDS) tokens));
          rawScore = pos - neg
      in if rawScore > 0 then \<lparr>label = positive, score = real_of_int rawScore\<rparr>
         else if rawScore < 0 then \<lparr>label = negative, score = real_of_int rawScore\<rparr>
         else \<lparr>label = neutral, score = 0\<rparr>)"

subsection \<open>Configuration, world and process state\<close>

text \<open>
  The environment settings read when the module is loaded. \<open>TIMEZONE_OFFSET_MINUTES\<close> is
  \<open>None\<close> when the setting is no finite number; \<open>SIGNAL_CACHE_TTL_MS\<close> is the setting as a
  number, \<open>None\<close> when it is not given.
\<close>

record Config =
  CRYPTOPANIC_TOKEN :: "string option"
  ENABLE_TRANSFORMERS :: bool
  TIMEZONE_OFFSET_MINUTES :: "real option"
  SIGNAL_CACHE_TTL_MS :: "real option"

text \<open>
  Line 203. A setting that is no number makes the source's value NaN, which disables
  the cache as 0 does.
\<close>

definition RESPONSE_CACHE_TTL_MS :: "Config \<Rightarrow> real" where
  "RESPONSE_CACHE_TTL_MS cfg =
     max 0 (case SIGNAL_CACHE_TTL_MS cfg of Some x \<Rightarrow> x | None \<Rightarrow> 45000)"

definition SENTIMENT_CACHE_TTL_MS :: int where
  "SENTIMENT_CACHE_TTL_MS = 1000 * 60 * 60 * 6"

datatype SourceField = SourceString string | SourceObject "string option"

record RSSItem =
  title :: "string option"
  link :: "string option"
  pubDate :: "string option"
  isoDate :: "string option"
  contentSnippet :: "string option"
  content :: "string option"
  creator :: "string option"
  source :: "SourceField option"

record Post =
  post_url :: "string option"
  post_domain :: "string option"
  post_published_at :: "string option"
  post_title :: "string option"
  post_description :: "string option"

text \<open>
  What one request finds outside the process: the two readings of the clock (line 658
  and line 638), the settled results of the feeds in the order of \<^verbatim>\<open>rssUrls\<close> (\<open>None\<close>
  for a rejected feed, else its items), the posts of the optional source (\<open>None\<close> when the
  request failed or was not answered with success), and the classifier of the track
  that the script detection selects (\<open>None\<close> when it is not available or fails).
\<close>

record World =
  clock_now :: int
  clock_generatedAt :: int
  rssResults :: "RSSItem list option list"
  cryptoPanic :: "Post list option"
  classifier :: "string \<Rightarrow> ClassifierOutput option"

datatype QueryValue = Single string | Multiple "string list"

text \<open>A request: \<^verbatim>\<open>req.method\<close> and \<^verbatim>\<open>req.query\<close>.\<close>

record Request =
  req_method :: string
  query :: "string \<Rightarrow> QueryValue option"

record CacheEntry =
  cached_score :: SentimentScore
  expiresAt :: int

record ResponseCache =
  timestamp :: int
  payload :: SignalResponse

text \<open>The module-level variables that outlive a request.\<close>

record Process =
  sentimentCache :: "string \<Rightarrow> CacheEntry option"
  responseCache :: "ResponseCache option"

text \<open>The variables of one computation run (lines 702-710).\<close>

record Run =
  seen :: "string set"
  collected :: "SignalItem list"
  posW :: real
  negW :: real
  neuW :: real
  posCount :: nat
  negCount :: nat
  neuCount :: nat
  cache :: "string \<Rightarrow> CacheEntry option"

subsection \<open>Sentiment cache\<close>

definition getCachedSentiment ::
  "string \<Rightarrow> int \<Rightarrow> (string \<Rightarrow> CacheEntry option)
     \<Rightarrow> SentimentScore option \<times> (string \<Rightarrow> CacheEntry option)" where
  "getCachedSentiment key now c =
     (case c key of
        None \<Rightarrow> (None, c)
      | Some cached \<Rightarrow>
          if expiresAt cached \<le> now then (None, c(key := None))
          else (Some (cached_score cached), c))"

definition setCachedSentiment ::
  "string \<Rightarrow> SentimentScore \<Rightarrow> int \<Rightarrow> (string \<Rightarrow> CacheEntry option)
     \<Rightarrow> (string \<Rightarrow> CacheEntry option)" where
  "setCachedSentiment key s now c =
     c(key \<mapsto> \<lparr>cached_score = s, expiresAt = now + SENTIMENT_CACHE_TTL_MS\<rparr>)"

definition cleanupSentimentCache ::
  "int \<Rightarrow> (string \<Rightarrow> CacheEntry option) \<Rightarrow> (string \<Rightarrow> CacheEntry option)" where
  "cleanupSentimentCache now c =
     (\<lambda>key. case c key of
               None \<Rightarrow> None
             | Some cached \<Rightarrow> if expiresAt cached \<le> now then None else Some cached)"

subsection \<open>Scoring one text\<close>

definition isSpaceChar :: "char \<Rightarrow> bool" where
  "isSpaceChar c = (of_char c \<in> {9, 10, 11, 12, 13, 32 :: nat})"

definition trim :: "string \<Rightarrow> string" where
  "trim s = rev (dropWhile isSpaceChar (rev (dropWhile isSpaceChar s)))"

definition scoreSentiment :: "Config \<Rightarrow> World \<Rightarrow> string \<Rightarrow> string \<Rightarrow> SentimentScore" where
  "scoreSentiment cfg world ttl snippet =
     (let lexiconScore = scoreSentimentLexicon ttl snippet
      in if \<not> ENABLE_TRANSFORMERS cfg then lexiconScore
         else (let text = trim (ttl @ '' '' @ snippet)
               in if text = [] then lexiconScore
                  else combineSentiments (scoreSentimentModel (classifier world text))
                         lexiconScore))"

subsection \<open>Sources and weights\<close>

definition SOURCE_WEIGHTS :: "(string \<times> real) list" where
  "SOURCE_WEIGHTS =
     [(''Reuters'', 1.3), (''Bloomberg'', 1.25), (''The Wall Street Journal'', 1.2),
      (''WSJ'', 1.2), (''Financial Times'', 1.2), (''CoinDesk'', 1.15),
      (''Cointelegraph'', 1.1), (''The Block'', 1.1)]"

text \<open>
  \<^verbatim>\<open>weightForSource\<close>. The table is read as a table of its own eight entries: a
  source that bears the name of a property that every JavaScript object inherits (such
  as \<^verbatim>\<open>constructor\<close>), for which the source's lookup yields no number, is outside the
  model.
\<close>

definition weightForSource :: "string \<Rightarrow> real" where
  "weightForSource src =
     (case map_of SOURCE_WEIGHTS (trim src) of Some w \<Rightarrow> w | None \<Rightarrow> 1)"

text \<open>\<^verbatim>\<open>a || b\<close> on strings that may be missing: the empty string counts as missing.\<close>

definition orElse :: "string option \<Rightarrow> string option \<Rightarrow> string option" where
  "orElse a b = (case a of None \<Rightarrow> b | Some s \<Rightarrow> if s = [] then b else Some s)"

definition orEmpty :: "string option \<Rightarrow> string" where
  "orEmpty a = (case a of None \<Rightarrow> [] | Some s \<Rightarrow> s)"

definition stripWww :: "string \<Rightarrow> string" where
  "stripWww h = (if startsWith h ''www.'' then drop 4 h else h)"

definition resolveSource :: "Platform \<Rightarrow> RSSItem \<Rightarrow> string \<Rightarrow> string" where
  "resolveSource pf item lnk =
     (let fromCreator = (case creator item of Some c \<Rightarrow> trim c | None \<Rightarrow> []);
          fromSourceString =
            (case source item of Some (SourceString s) \<Rightarrow> trim s | _ \<Rightarrow> []);
          fromSourceObject =
            (case source item of Some (SourceObject t) \<Rightarrow> orEmpty t | _ \<Rightarrow> []);
          candidate =
            (if fromCreator \<noteq> [] then fromCreator
             else if fromSourceString \<noteq> [] then fromSourceString
             else fromSourceObject)
      in if candidate \<noteq> [] then candidate
         else (case URL_parse pf lnk of
                 None \<Rightarrow> ''Unknown''
               | Some u \<Rightarrow>
                   (let h = stripWww (hostname u)
                    in if h \<noteq> [] then h else ''Unknown'')))"

subsection \<open>Dates and the window filter\<close>

definition toDate :: "Platform \<Rightarrow> string option \<Rightarrow> int option" where
  "toDate pf v =
     (case v of
        None \<Rightarrow> None
      | Some s \<Rightarrow> if s = [] then None else Date_parse pf s)"

text \<open>
  \<^verbatim>\<open>withinWindow\<close>, on the date that \<^verbatim>\<open>toDate\<close> gave. A window that is NaN
  (\<open>None\<close>) holds no date.
\<close>

definition withinWindow :: "int option \<Rightarrow> int \<Rightarrow> int option \<Rightarrow> bool" where
  "withinWindow d now W =
     (case d of
        None \<Rightarrow> False
      | Some date \<Rightarrow>
          (case W of
             None \<Rightarrow> False
           | Some w \<Rightarrow>
               (let minutesAgo = toMinutesAgo date now
                in minutesAgo \<ge> 0 \<and> minutesAgo \<le> real_of_int w)))"

subsection \<open>Accumulation\<close>

text \<open>
  \<^verbatim>\<open>Number(x.toFixed(4))\<close>: the nearest multiple of 0.0001, a tie going away from
  zero.
\<close>

definition toFixed4 :: "real \<Rightarrow> real" where
  "toFixed4 x =
     (if x < 0 then - (real_of_int \<lfloor>(- x) * 10000 + 1 / 2\<rfloor> / 10000)
      else real_of_int \<lfloor>x * 10000 + 1 / 2\<rfloor> / 10000)"

text \<open>\<^verbatim>\<open>accumulate\<close>: the closure of lines 712-726, on the variables of the run.\<close>

definition accumulate :: "Sentiment \<Rightarrow> real \<Rightarrow> real \<Rightarrow> Run \<Rightarrow> real \<times> Run" where
  "accumulate sentiment s weightFactor r =
     (let magnitudeBoost = clamp 0.5 2.0 \<bar>s\<bar>;
          weightedContribution = magnitudeBoost * weightFactor;
          r' = (if sentiment = positive
                then r\<lparr>posW := posW r + weightedContribution, posCount := posCount r + 1\<rparr>
                else if sentiment = negative
                then r\<lparr>negW := negW r + weightedContribution, negCount := negCount r + 1\<rparr>
                else r\<lparr>neuW := neuW r + weightedContribution, neuCount := neuCount r + 1\<rparr>)
      in (toFixed4 (s * weightFactor), r'))"

subsection \<open>One item\<close>

text \<open>
  Lines 749-780, and the same lines 804-835 of the optional source: score the text
  (from the cache, or computed and then cached), weigh it, mark the link as seen, add to
  the sums and append the output item. \<open>w\<close> is the window, \<open>lnk\<close> the normalised link,
  \<open>d\<close> the publication date, \<open>ttl\<close> the title, \<open>src\<close> the resolved source.
\<close>

definition scoreAndPush ::
  "Config \<Rightarrow> World \<Rightarrow> int \<Rightarrow> string \<Rightarrow> int \<Rightarrow> string option \<Rightarrow> string \<Rightarrow> string \<Rightarrow> Run \<Rightarrow> Run" where
  "scoreAndPush cfg world w lnk d ttl snippet src r =
     (let nowMs = clock_now world;
          (hit, c1) = getCachedSentiment lnk nowMs (cache r);
          (sentimentResult, c2) =
            (case hit of
               Some s \<Rightarrow> (s, c1)
             | None \<Rightarrow>
                 (let s = scoreSentiment cfg world (orEmpty ttl) snippet
                  in (s, setCachedSentiment lnk s nowMs c1)));
          wSource = weightForSource src;
          wDecay = decayWeight d nowMs (real_of_int w);
          weightFactor = wSource * wDecay;
          r1 = r\<lparr>cache := c2, seen := insert lnk (seen r)\<rparr>;
          (formattedWeight, r2) =
            accumulate (label sentimentResult) (score sentimentResult) weightFactor r1
      in r2\<lparr>collected := collected r2 @
            [\<lparr>item_title = (case orElse ttl None of Some t \<Rightarrow> t | None \<Rightarrow> ''(untitled)''),
              item_link = lnk,
              item_pubDate = d,
              item_source = src,
              item_sentiment = label sentimentResult,
              item_score = score sentimentResult,
              item_weight = formattedWeight\<rparr>]\<rparr>)"

text \<open>Lines 733-781: one item of a feed. \<open>W\<close> is the window of the request.\<close>

definition processItem :: "Config \<Rightarrow> Platform \<Rightarrow> World \<Rightarrow> int option \<Rightarrow> Run \<Rightarrow> RSSItem \<Rightarrow> Run" where
  "processItem cfg pf world W r item =
     (let lnk = normalizeLink pf (orEmpty (link item))
      in if lnk = [] \<or> lnk \<in> seen r then r
         else (let pubDateRaw = orElse (pubDate item) (isoDate item)
               in if \<not> withinWindow (toDate pf pubDateRaw) (clock_now world) W then r
                  else (case (toDate pf pubDateRaw, W) of
                          (Some d, Some w) \<Rightarrow>
                            scoreAndPush cfg world w lnk d (title item)
                              (orEmpty (orElse (contentSnippet item) (content item)))
                              (resolveSource pf item lnk) r
                        | _ \<Rightarrow> r)))"

text \<open>Lines 790-836: one post of the optional source.\<close>

definition processPost :: "Config \<Rightarrow> Platform \<Rightarrow> World \<Rightarrow> int option \<Rightarrow> Run \<Rightarrow> Post \<Rightarrow> Run" where
  "processPost cfg pf world W r post =
     (let lnk = normalizeLink pf (orEmpty (orElse (post_url post) (post_domain post)))
      in if lnk = [] \<or> lnk \<in> seen r then r
         else (let d' = toDate pf (post_published_at post)
               in if d' = None \<or> \<not> withinWindow d' (clock_now world) W then r
                  else (case (d', W) of
                          (Some d, Some w) \<Rightarrow>
                            scoreAndPush cfg world w lnk d (post_title post)
                              (orEmpty (post_description post))
                              (orEmpty (orElse (post_domain post) (Some ''CryptoPanic''))) r
                        | _ \<Rightarrow> r)))"

subsection \<open>One computation run\<close>

text \<open>Lines 728-782: the feeds in their order, a rejected feed giving nothing.\<close>

definition processFeeds ::
  "Config \<Rightarrow> Platform \<Rightarrow> World \<Rightarrow> int option \<Rightarrow> Run \<Rightarrow> RSSItem list option list \<Rightarrow> Run" where
  "processFeeds cfg pf world W r results =
     foldl (\<lambda>r' result. case result of
                           None \<Rightarrow> r'
                         | Some feedItems \<Rightarrow> foldl (processItem cfg pf world W) r' feedItems)
       r results"

text \<open>Lines 784-841: the optional source, after the feeds, when there is a token.\<close>

definition processCryptoPanic :: "Config \<Rightarrow> Platform \<Rightarrow> World \<Rightarrow> int option \<Rightarrow> Run \<Rightarrow> Run" where
  "processCryptoPanic cfg pf world W r =
     (if orElse (CRYPTOPANIC_TOKEN cfg) None = None then r
      else (case cryptoPanic world of
              None \<Rightarrow> r
            | Some posts \<Rightarrow> foldl (processPost cfg pf world W) r posts))"

definition emptyRun :: "(string \<Rightarrow> CacheEntry option) \<Rightarrow> Run" where
  "emptyRun c =
     \<lparr>seen = {}, collected = [], posW = 0, negW = 0, neuW = 0,
      posCount = 0, negCount = 0, neuCount = 0, cache = c\<rparr>"

text \<open>Lines 687-841: the variables of the run when both sources have been read.\<close>

definition runItems :: "Config \<Rightarrow> Platform \<Rightarrow> World \<Rightarrow> int option \<Rightarrow> Process \<Rightarrow> Run" where
  "runItems cfg pf world W proc =
     processCryptoPanic cfg pf world W
       (processFeeds cfg pf world W
          (emptyRun (cleanupSentimentCache (clock_now world) (sentimentCache proc)))
          (rssResults world))"

text \<open>
  Lines 843-859: the items sorted by publication date, latest first (the sort is stable),
  and the response.
\<close>

definition responseOfRun :: "Config \<Rightarrow> World \<Rightarrow> int option \<Rightarrow> Run \<Rightarrow> SignalResponse" where
  "responseOfRun cfg world W r =
     buildResponse (clock_generatedAt world) W
       (case TIMEZONE_OFFSET_MINUTES cfg of Some x \<Rightarrow> x | None \<Rightarrow> 0)
       (sort_key (\<lambda>i. - item_pubDate i) (collected r))
       (posW r) (negW r) (neuW r) (posCount r) (negCount r) (neuCount r)"

subsection \<open>The handler\<close>

datatype HttpResponse = Status200 SignalResponse | Status405 | Status500

text \<open>Line 669: only the presence of the key is looked at.\<close>

definition forceRefresh :: "Request \<Rightarrow> bool" where
  "forceRefresh req = (query req ''force'' \<noteq> None)"

text \<open>Lines 671-676.\<close>

definition cacheHit :: "Config \<Rightarrow> World \<Rightarrow> Request \<Rightarrow> Process \<Rightarrow> bool" where
  "cacheHit cfg world req proc =
     (RESPONSE_CACHE_TTL_MS cfg > 0 \<and> \<not> forceRefresh req \<and>
      (case responseCache proc of
         None \<Rightarrow> False
       | Some rc \<Rightarrow>
           real_of_int (clock_now world - timestamp rc) < RESPONSE_CACHE_TTL_MS cfg))"

text \<open>Lines 687-865: the recomputation, with the cache slot written when caching is on.\<close>

definition recompute ::
  "Config \<Rightarrow> Platform \<Rightarrow> World \<Rightarrow> int option \<Rightarrow> Process \<Rightarrow> HttpResponse \<times> Process" where
  "recompute cfg pf world W proc =
     (let r = runItems cfg pf world W proc;
          response = responseOfRun cfg world W r
      in (Status200 response,
          \<lparr>sentimentCache = cache r,
           responseCache =
             (if RESPONSE_CACHE_TTL_MS cfg > 0
              then Some \<lparr>timestamp = clock_now world, payload = response\<rparr>
              else responseCache proc)\<rparr>))"

text \<open>
  \<^verbatim>\<open>handler\<close>. Every failure of a collaborator is a value of the world here (a rejected
  feed, a failed request, an unavailable classifier), so that no step of the model
  reaches the answer 500 of line 868.
\<close>

definition handler ::
  "Config \<Rightarrow> Platform \<Rightarrow> World \<Rightarrow> Request \<Rightarrow> Process \<Rightarrow> HttpResponse \<times> Process" where
  "handler cfg pf world req proc =
     (if req_method req \<noteq> ''GET'' then (Status405, proc)
      else (let W = handlerWindowMinutes (clock_now world) (TIMEZONE_OFFSET_MINUTES cfg)
            in if cacheHit cfg world req proc
               then (case responseCache proc of
                       None \<Rightarrow> recompute cfg pf world W proc
                     | Some rc \<Rightarrow>
                         (Status200
                            ((payload rc)\<lparr>windowMinutes := W,
                               timezoneOffsetMinutes :=
                                 (case TIMEZONE_OFFSET_MINUTES cfg of
                                    Some x \<Rightarrow> x
                                  | None \<Rightarrow> timezoneOffsetMinutes (payload rc))\<rparr>),
                          proc))
               else recompute cfg pf world W proc))"

text \<open>
  What the verification asks of the platform at one link: the link that the serializer
  gives for the stripped URL is read back by the URL parser as that URL; the text that
  the parameter serializer gives for the kept parameters is read back as these
  parameters; and the empty query has no parameters. The URL standard states both round
  trips for every URL and every parameter list.
\<close>

definition platformRoundTrip :: "Platform \<Rightarrow> string \<Rightarrow> bool" where
  "platformRoundTrip pf url =
     (URLSearchParams_parse pf [] = [] \<and>
      (case URL_parse pf url of
         None \<Rightarrow> True
       | Some u \<Rightarrow>
           URL_parse pf (URL_toString pf (strippedURL pf u)) = Some (strippedURL pf u)
           \<and> URLSearchParams_parse pf
                 (URLSearchParams_toString pf (keepParams (searchParams pf u)))
               = keepParams (searchParams pf u)))"

subsection \<open>The run as one pass over the raw entries\<close>

text \<open>
  The two loops of the handler read the items of the fulfilled feeds, feed after feed,
  and then the posts of the optional source. The definitions of this section name that
  order and the tests that decide whether an entry is taken; they are compared with
  the loops in the verification (\<open>runItems_foldl\<close>, \<open>processRaw_cases\<close>).
\<close>

datatype Raw = FromFeed RSSItem | FromPost Post

definition rawEntries :: "Config \<Rightarrow> World \<Rightarrow> Raw list" where
  "rawEntries cfg world =
     concat (map (\<lambda>result. case result of None \<Rightarrow> [] | Some its \<Rightarrow> map FromFeed its)
               (rssResults world))
     @ (if orElse (CRYPTOPANIC_TOKEN cfg) None = None then []
        else (case cryptoPanic world of None \<Rightarrow> [] | Some posts \<Rightarrow> map FromPost posts))"

definition processRaw :: "Config \<Rightarrow> Platform \<Rightarrow> World \<Rightarrow> int option \<Rightarrow> Run \<Rightarrow> Raw \<Rightarrow> Run" where
  "processRaw cfg pf world W r e =
     (case e of
        FromFeed item \<Rightarrow> processItem cfg pf world W r item
      | FromPost post \<Rightarrow> processPost cfg pf world W r post)"

text \<open>The normalised link of an entry (lines 734 and 791).\<close>

definition rawLink :: "Platform \<Rightarrow> Raw \<Rightarrow> string" where
  "rawLink pf e =
     (case e of
        FromFeed item \<Rightarrow> normalizeLink pf (orEmpty (link item))
      | FromPost post \<Rightarrow> normalizeLink pf (orEmpty (orElse (post_url post) (post_domain post))))"

text \<open>The publication date of an entry (lines 739-743 and 796-798).\<close>

definition rawDate :: "Platform \<Rightarrow> Raw \<Rightarrow> int option" where
  "rawDate pf e =
     (case e of
        FromFeed item \<Rightarrow> toDate pf (orElse (pubDate item) (isoDate item))
      | FromPost post \<Rightarrow> toDate pf (post_published_at post))"

text \<open>The title, the text and the source that lines 751-761 and 806-815 take from an entry.\<close>

definition rawTitle :: "Raw \<Rightarrow> string option" where
  "rawTitle e = (case e of FromFeed item \<Rightarrow> title item | FromPost post \<Rightarrow> post_title post)"

definition rawSnippet :: "Raw \<Rightarrow> string" where
  "rawSnippet e =
     (case e of
        FromFeed item \<Rightarrow> orEmpty (orElse (contentSnippet item) (content item))
      | FromPost post \<Rightarrow> orEmpty (post_description post))"

definition rawSource :: "Platform \<Rightarrow> Raw \<Rightarrow> string" where
  "rawSource pf e =
     (case e of
        FromFeed item \<Rightarrow> resolveSource pf item (rawLink pf e)
      | FromPost post \<Rightarrow> orEmpty (orElse (post_domain post) (Some ''CryptoPanic'')))"

text \<open>
  An entry passes the filters when its normalised link is not empty and its date is
  readable and inside the window.
\<close>

definition passesFilters :: "Platform \<Rightarrow> World \<Rightarrow> int option \<Rightarrow> Raw \<Rightarrow> bool" where
  "passesFilters pf world W e =
     (rawLink pf e \<noteq> [] \<and> withinWindow (rawDate pf e) (clock_now world) W)"

text \<open>The variables of the run when the first \<open>j\<close> entries have been read.\<close>

definition runBefore :: "Config \<Rightarrow> Platform \<Rightarrow> World \<Rightarrow> int option \<Rightarrow> Process \<Rightarrow> nat \<Rightarrow> Run" where
  "runBefore cfg pf world W proc j =
     foldl (processRaw cfg pf world W)
       (emptyRun (cleanupSentimentCache (clock_now world) (sentimentCache proc)))
       (take j (rawEntries cfg world))"

text \<open>The sentiment that lines 749-756 give to a link: the cached one, else the computed.\<close>

definition sentimentFor ::
  "Config \<Rightarrow> World \<Rightarrow> string \<Rightarrow> string option \<Rightarrow> string \<Rightarrow> Run \<Rightarrow> SentimentScore" where
  "sentimentFor cfg world lnk ttl snippet r =
     (case fst (getCachedSentiment lnk (clock_now world) (cache r)) of
        Some s \<Rightarrow> s
      | None \<Rightarrow> scoreSentiment cfg world (orEmpty ttl) snippet)"

subsection \<open>A reference platform\<close>

text \<open>
  An instance of the platform functions, for evaluating the model on examples: links
  with the scheme http or https, split at the first hash sign and the first question
  mark; queries split at the ampersand and the first equals sign, with the plus sign for
  the blank and no percent-coding; dates in the format \<^verbatim>\<open>YYYY-MM-DDTHH:MM:SSZ\<close>.
\<close>

fun splitAtChar :: "char \<Rightarrow> string \<Rightarrow> string \<times> string option" where
  "splitAtChar c [] = ([], None)"
| "splitAtChar c (x # xs) =
     (if x = c then ([], Some xs)
      else (case splitAtChar c xs of (a, b) \<Rightarrow> (x # a, b)))"

fun splitOn :: "char \<Rightarrow> string \<Rightarrow> string list" where
  "splitOn c [] = [[]]"
| "splitOn c (x # xs) =
     (if x = c then [] # splitOn c xs
      else (case splitOn c xs of
              [] \<Rightarrow> [[x]]
            | p # ps \<Rightarrow> (x # p) # ps))"

definition refURL_parse :: "string \<Rightarrow> URL option" where
  "refURL_parse s =
     (case splitAtChar (CHR ''#'') s of
        (beforeHash, frag) \<Rightarrow>
          (case splitAtChar (CHR ''?'') beforeHash of
             (base, q) \<Rightarrow>
               (let authority =
                      (if startsWith base ''https://'' then Some (drop 8 base)
                       else if startsWith base ''http://'' then Some (drop 7 base)
                       else None)
                in case authority of
                     None \<Rightarrow> None
                   | Some a \<Rightarrow>
                       (let h = takeWhile (\<lambda>c. c \<noteq> CHR ''/'') a
                        in if h = [] then None
                           else Some \<lparr>url_rest = (if h = a then base @ ''/'' else base),
                                      hostname = h,
                                      url_query = q,
                                      url_fragment = frag\<rparr>))))"

definition refURL_toString :: "URL \<Rightarrow> string" where
  "refURL_toString u =
     url_rest u
     @ (case url_query u of None \<Rightarrow> [] | Some q \<Rightarrow> CHR ''?'' # q)
     @ (case url_fragment u of None \<Rightarrow> [] | Some f \<Rightarrow> CHR ''#'' # f)"

definition refParams_parse :: "string \<Rightarrow> (string \<times> string) list" where
  "refParams_parse q =
     map (\<lambda>piece. case splitAtChar (CHR ''='') piece of
                    (k, v) \<Rightarrow>
                      (map (\<lambda>c. if c = CHR ''+'' then CHR '' '' else c) k,
                       map (\<lambda>c. if c = CHR ''+'' then CHR '' '' else c) (orEmpty v)))
       (filter (\<lambda>piece. piece \<noteq> []) (splitOn (CHR ''&'') q))"

fun joinParams :: "string list \<Rightarrow> string" where
  "joinParams [] = []"
| "joinParams [p] = p"
| "joinParams (p # q # ps) = p @ CHR ''&'' # joinParams (q # ps)"

definition refParams_toString :: "(string \<times> string) list \<Rightarrow> string" where
  "refParams_toString ps =
     joinParams
       (map (\<lambda>(k, v). map (\<lambda>c. if c = CHR '' '' then CHR ''+'' else c) k
                         @ CHR ''='' # map (\<lambda>c. if c = CHR '' '' then CHR ''+'' else c) v)
          ps)"

fun numberOf :: "int \<Rightarrow> string \<Rightarrow> int option" where
  "numberOf acc [] = Some acc"
| "numberOf acc (c # cs) =
     (let n = (of_char c :: nat)
      in if 48 \<le> n \<and> n \<le> 57 then numberOf (10 * acc + (int n - 48)) cs else None)"

definition refDate_parse :: "string \<Rightarrow> int option" where
  "refDate_parse s =
     (if length s = 20
         \<and> map (\<lambda>i. s ! i) [4, 7, 10, 13, 16, 19] = ''--T::Z''
      then (case (numberOf 0 (take 4 s), numberOf 0 (take 2 (drop 5 s)),
                  numberOf 0 (take 2 (drop 8 s)), numberOf 0 (take 2 (drop 11 s)),
                  numberOf 0 (take 2 (drop 14 s)), numberOf 0 (take 2 (drop 17 s))) of
              (Some y, Some mo, Some d, Some h, Some mi, Some se) \<Rightarrow>
                if 1 \<le> mo \<and> mo \<le> 12 \<and> 1 \<le> d \<and> d \<le> 31 \<and> h \<le> 23 \<and> mi \<le> 59 \<and> se \<le> 59
                then Some (MakeDay y (mo - 1) d * msPerDay
                           + h * 3600000 + mi * 60000 + se * 1000)
                else None
            | _ \<Rightarrow> None)
      else None)"

definition refPlatform :: Platform where
  "refPlatform =
     \<lparr>URL_parse = refURL_parse,
      URL_toString = refURL_toString,
      URLSearchParams_parse = refParams_parse,
      URLSearchParams_toString = refParams_toString,
      Date_parse = refDate_parse\<rparr>"

subsection \<open>Example requests\<close>

text \<open>
  A request at 2024-01-01T05:30:00Z with offset 0. The first feed has an item and a
  second item whose link differs from the first only in a tracking parameter; the second
  feed is rejected; the third has an item and an item of the day before. The optional
  source repeats a link of the third feed and adds one post.
\<close>

definition exampleConfig :: Config where
  "exampleConfig =
     \<lparr>CRYPTOPANIC_TOKEN = Some ''token'', ENABLE_TRANSFORMERS = False,
      TIMEZONE_OFFSET_MINUTES = Some 0, SIGNAL_CACHE_TTL_MS = None\<rparr>"

definition emptyItem :: RSSItem where
  "emptyItem =
     \<lparr>title = None, link = None, pubDate = None, isoDate = None, contentSnippet = None,
      content = None, creator = None, source = None\<rparr>"

definition exampleFeeds :: "RSSItem list option list" where
  "exampleFeeds =
     [Some [emptyItem\<lparr>title := Some ''Bitcoin rally as ETF approved'',
                       link := Some ''https://www.coindesk.com/markets/btc?utm_source=rss#top'',
                       pubDate := Some ''2024-01-01T05:00:00Z'',
                       source := Some (SourceString ''CoinDesk'')\<rparr>,
            emptyItem\<lparr>title := Some ''The same article again'',
                       link := Some ''https://www.coindesk.com/markets/btc?utm_medium=feed'',
                       pubDate := Some ''2024-01-01T05:10:00Z''\<rparr>],
      None,
      Some [emptyItem\<lparr>title := Some ''Exchange hack: funds stolen'',
                       link := Some ''https://cointelegraph.com/news/hack'',
                       isoDate := Some ''2024-01-01T02:45:00Z''\<rparr>,
            emptyItem\<lparr>title := Some ''Market crash'',
                       link := Some ''https://cointelegraph.com/news/old'',
                       isoDate := Some ''2023-12-31T23:00:00Z''\<rparr>]]"

definition examplePosts :: "Post list" where
  "examplePosts =
     [\<lparr>post_url = Some ''https://cointelegraph.com/news/hack#comments'',
       post_domain = Some ''cointelegraph.com'',
       post_published_at = Some ''2024-01-01T03:00:00Z'',
       post_title = Some ''Hack'', post_description = None\<rparr>,
      \<lparr>post_url = Some ''https://example.org/update'',
       post_domain = Some ''example.org'',
       post_published_at = Some ''2024-01-01T05:30:00Z'',
       post_title = Some ''Market update'', post_description = None\<rparr>]"

definition exampleWorld :: World where
  "exampleWorld =
     \<lparr>clock_now = 1704087000000, clock_generatedAt = 1704087000250,
      rssResults = exampleFeeds, cryptoPanic = Some examplePosts,
      classifier = (\<lambda>_. None)\<rparr>"

definition exampleProcess :: Process where
  "exampleProcess = \<lparr>sentimentCache = (\<lambda>_. None), responseCache = None\<rparr>"

text \<open>
  A feed whose first item has a date that cannot be read and whose second item has the
  same link and a date inside the window.
\<close>

definition lateWorld :: World where
  "lateWorld =
     \<lparr>clock_now = 1704087000000, clock_generatedAt = 1704087000250,
      rssResults =
        [Some [emptyItem\<lparr>title := Some ''first'',
                          link := Some ''https://example.org/a'',
                          pubDate := Some ''yesterday''\<rparr>,
               emptyItem\<lparr>title := Some ''second'',
                          link := Some ''https://example.org/a'',
                          pubDate := Some ''2024-01-01T05:00:00Z''\<rparr>]],
      cryptoPanic = None,
      classifier = (\<lambda>_. None)\<rparr>"

text \<open>A request without parameters, and a request with the parameter \<open>force\<close>.\<close>

definition getRequest :: Request where
  "getRequest = \<lparr>req_method = ''GET'', query = (\<lambda>_. None)\<rparr>"

definition forceRequest :: "string \<Rightarrow> Request" where
  "forceRequest v =
     \<lparr>req_method = ''GET'', query = (\<lambda>k. if k = ''force'' then Some (Single v) else None)\<rparr>"

text \<open>A process whose response cache was filled ten seconds before the example request.\<close>

definition cachedPayload :: SignalResponse where
  "cachedPayload =
     \<lparr>windowMinutes = Some 329, timezoneOffsetMinutes = 0, generatedAt = 1704086990250,
      counts = \<lparr>count_positive = 1, count_negative = 0, count_neutral = 0\<rparr>,
      weights = \<lparr>weights_posW = 2, weights_negW = 0, weights_neuW = 0\<rparr>,
      longPct = 100, shortPct = 0, recommendation = LONG,
      items = [\<lparr>item_title = ''Cached'', item_link = ''https://example.org/cached'',
                item_pubDate = 1704085200000, item_source = ''example.org'',
                item_sentiment = positive, item_score = 2, item_weight = 2\<rparr>]\<rparr>"

definition cachedProcess :: Process where
  "cachedProcess =
     \<lparr>sentimentCache = (\<lambda>_. None),
      responseCache = Some \<lparr>timestamp = 1704086990000, payload = cachedPayload\<rparr>\<rparr>"

section \<open>Verification\<close>

subsection \<open>Time decay\<close>

lemma linearTimeDecay_closed:
  assumes W: "1 \<le> W" and m: "0 \<le> m" "m \<le> W"
  shows "linearTimeDecay m W = 1 - 0.3 * (m / W)"
proof -
  have q: "0 \<le> m / W" "m / W \<le> 1" using W m by simp_all
  have b: "7 / 10 \<le> 1 - (m / W) * (3 / 10)" "1 - (m / W) * (3 / 10) \<le> 1"
    using q by simp_all
  have s: "max W 1 = W" using W by simp
  have c: "clamp 0 W m = m" using m by (simp add: clamp_def)
  have "linearTimeDecay m W = clamp (7 / 10) 1 (1 - (m / W) * (3 / 10))"
    by (simp add: linearTimeDecay_def Let_def s c)
  also have "\<dots> = 1 - (m / W) * (3 / 10)"
    unfolding clamp_def using b by (simp only: max_absorb2 min_absorb2)
  finally show ?thesis by simp
qed

text \<open>
  Claim C3. For every window \<open>W \<ge> 1\<close> and every item age, the decay weight is
  \<open>clamp(0.7, 1, 1 - 0.3 * clamp(minutesAgo / W, 0, 1))\<close> when the age lies in \<open>[0, W]\<close> and
  0 when it is negative or above \<open>W\<close>; an item of age 0 weighs 1, one of age \<open>W\<close> weighs
  0.7, and the weight does not increase with the age inside the window.
\<close>

theorem decayWeight_spec:
  assumes W: "1 \<le> W"
  shows "(0 \<le> toMinutesAgo date now \<and> toMinutesAgo date now \<le> W \<longrightarrow>
            decayWeight date now W
              = clamp 0.7 1 (1 - 0.3 * clamp 0 1 (toMinutesAgo date now / W)))
       \<and> (toMinutesAgo date now < 0 \<or> toMinutesAgo date now > W \<longrightarrow>
            decayWeight date now W = 0)
       \<and> decayWeight now now W = 1
       \<and> (toMinutesAgo date now = W \<longrightarrow> decayWeight date now W = 0.7)
       \<and> (0 \<le> toMinutesAgo d1 now \<and> toMinutesAgo d1 now \<le> toMinutesAgo d2 now
            \<and> toMinutesAgo d2 now \<le> W \<longrightarrow>
            decayWeight d2 now W \<le> decayWeight d1 now W)"
proof (intro conjI impI)
  assume a: "0 \<le> toMinutesAgo date now \<and> toMinutesAgo date now \<le> W"
  define m where "m = toMinutesAgo date now"
  have m: "0 \<le> m" "m \<le> W" using a by (simp_all add: m_def)
  have q: "0 \<le> m / W" "m / W \<le> 1" using W m by simp_all
  have d: "decayWeight date now W = 1 - 0.3 * (m / W)"
    using m linearTimeDecay_closed [OF W m] by (simp add: decayWeight_def Let_def m_def)
  have "clamp 0.7 1 (1 - 0.3 * clamp 0 1 (m / W)) = 1 - 0.3 * (m / W)"
    using q by (simp add: clamp_def max_def min_def)
  then show "decayWeight date now W
              = clamp 0.7 1 (1 - 0.3 * clamp 0 1 (toMinutesAgo date now / W))"
    using d by (simp add: m_def)
next
  assume "toMinutesAgo date now < 0 \<or> toMinutesAgo date now > W"
  then show "decayWeight date now W = 0" by (auto simp add: decayWeight_def Let_def)
next
  have "toMinutesAgo now now = 0" by (simp add: toMinutesAgo_def)
  then show "decayWeight now now W = 1"
    using W linearTimeDecay_closed [OF W, of 0] by (simp add: decayWeight_def Let_def)
next
  assume e: "toMinutesAgo date now = W"
  have "linearTimeDecay W W = 1 - 0.3 * (W / W)"
    using W linearTimeDecay_closed [OF W, of W] by simp
  then show "decayWeight date now W = 0.7"
    using W e by (simp add: decayWeight_def Let_def)
next
  assume a: "0 \<le> toMinutesAgo d1 now \<and> toMinutesAgo d1 now \<le> toMinutesAgo d2 now
            \<and> toMinutesAgo d2 now \<le> W"
  define m1 where "m1 = toMinutesAgo d1 now"
  define m2 where "m2 = toMinutesAgo d2 now"
  have m: "0 \<le> m1" "m1 \<le> m2" "m2 \<le> W" using a by (simp_all add: m1_def m2_def)
  have d1: "decayWeight d1 now W = 1 - 0.3 * (m1 / W)"
    using m linearTimeDecay_closed [OF W, of m1] by (simp add: decayWeight_def Let_def m1_def)
  have d2: "decayWeight d2 now W = 1 - 0.3 * (m2 / W)"
    using m linearTimeDecay_closed [OF W, of m2] by (simp add: decayWeight_def Let_def m2_def)
  have "m1 / W \<le> m2 / W" using W m by (simp add: divide_right_mono)
  then show "decayWeight d2 now W \<le> decayWeight d1 now W" using d1 d2 by simp
qed

theorem decayWeight_spec_witness:
  "(1::real) \<le> 330
   \<and> decayWeight 1704087000000 1704087000000 330 = 1
   \<and> decayWeight 1704067200000 1704087000000 330 = 0.7
   \<and> decayWeight 1704077100000 1704087000000 330 = 0.85
   \<and> decayWeight 1704067140000 1704087000000 330 = 0
   \<and> decayWeight 1704087060000 1704087000000 330 = 0
   \<and> decayWeight 1704067200000 1704087000000 330 \<le> decayWeight 1704077100000 1704087000000 330"
  using decayWeight_spec [of 330 1704077100000 1704087000000 1704077100000 1704067200000]
        decayWeight_spec [of 330 1704067200000 1704087000000]
        decayWeight_spec [of 330 1704067140000 1704087000000]
        decayWeight_spec [of 330 1704087060000 1704087000000]
  by (simp add: toMinutesAgo_def clamp_def)

subsection \<open>Model sentiment\<close>

lemma directional_cases:
  "directional diff =
     (if diff = 0 then \<lparr>label = neutral, score = 0\<rparr>
      else \<lparr>label = (if diff > 0 then positive else negative),
            score = Math_sign diff * max 0.5 (5 * \<bar>diff\<bar>)\<rparr>)"
  by (simp add: directional_def Math_sign_def mult.commute)

lemma scoreFromProbs_cases:
  "scoreFromProbs p =
     (if \<bar>p positive - p negative\<bar> < 0.05 then \<lparr>label = neutral, score = 0\<rparr>
      else directional (p positive - p negative))"
  by (simp add: scoreFromProbs_def Let_def)

lemma mapModelLabel_examples:
  "mapModelLabel ''positive'' = positive" "mapModelLabel ''negative'' = negative"
  "mapModelLabel ''neutral'' = neutral"
  "mapModelLabel ''LABEL_0'' = negative" "mapModelLabel ''LABEL_1'' = neutral"
  "mapModelLabel ''LABEL_2'' = positive"
  "mapModelLabel ''Positive'' = positive" "mapModelLabel ''Negative'' = negative"
  "mapModelLabel ''Neutral'' = neutral"
  by code_simp+

text \<open>
  A classifier output whose strongest class probability is 0.38, below 0.4, and whose
  positive and negative probabilities differ by 0.08: the result is positive with
  score 0.5, not neutral. Inside the branch of line 487 the first test needs a neutral
  probability of at least 0.4 and the second a difference below 0.05, so a weak
  strongest class alone never yields neutral.
\<close>

theorem scoreSentimentModel_neutral_counterexample:
  "max (max (classProbs [(''positive'', Some 0.38), (''neutral'', Some 0.32), (''negative'', Some 0.30)] positive)
            (classProbs [(''positive'', Some 0.38), (''neutral'', Some 0.32), (''negative'', Some 0.30)] negative))
       (classProbs [(''positive'', Some 0.38), (''neutral'', Some 0.32), (''negative'', Some 0.30)] neutral) < 0.4
   \<and> scoreSentimentModel (Some [(''positive'', Some 0.38), (''neutral'', Some 0.32), (''negative'', Some 0.30)])
       = Some \<lparr>label = positive, score = 0.5\<rparr>"
  by (simp add: scoreSentimentModel_def scoreFromProbs_def classProbs_def probsStep_def
        mapModelLabel_examples directional_def Let_def)

text \<open>
  Claim C2, as amended. For every non-empty classifier output the result is neutral with
  score 0 when \<open>|positive - negative| < 0.05\<close>; otherwise, whatever the strongest class
  probability, its label is the sign of \<open>positive - negative\<close> and its score is that sign
  times \<open>max(0.5, 5 * |positive - negative|)\<close>.
\<close>

theorem scoreSentimentModel_spec:
  assumes "outputs \<noteq> []"
  shows "(\<bar>classProbs outputs positive - classProbs outputs negative\<bar> < 0.05 \<longrightarrow>
            scoreSentimentModel (Some outputs) = Some \<lparr>label = neutral, score = 0\<rparr>)
       \<and> (\<bar>classProbs outputs positive - classProbs outputs negative\<bar> \<ge> 0.05 \<longrightarrow>
            scoreSentimentModel (Some outputs)
              = Some \<lparr>label = (if classProbs outputs positive > classProbs outputs negative
                                then positive else negative),
                       score = Math_sign (classProbs outputs positive - classProbs outputs negative)
                               * max 0.5 (5 * \<bar>classProbs outputs positive - classProbs outputs negative\<bar>)\<rparr>)"
  using assms
  by (auto simp add: scoreSentimentModel_def scoreFromProbs_cases directional_cases)

theorem scoreSentimentModel_spec_witness:
  "scoreSentimentModel (Some [(''positive'', Some 0.38), (''neutral'', Some 0.32), (''negative'', Some 0.30)])
     = Some \<lparr>label = positive, score = 0.5\<rparr>
   \<and> scoreSentimentModel (Some [(''LABEL_0'', Some 0.7), (''LABEL_1'', Some 0.2), (''LABEL_2'', Some 0.1)])
     = Some \<lparr>label = negative, score = - 3\<rparr>
   \<and> scoreSentimentModel (Some [(''Neutral'', Some 0.5), (''Positive'', Some 0.26), (''Negative'', Some 0.24)])
     = Some \<lparr>label = neutral, score = 0\<rparr>"
proof -
  have a: "classProbs [(''positive'', Some 0.38), (''neutral'', Some 0.32), (''negative'', Some 0.30)]
             = (\<lambda>s. case s of positive \<Rightarrow> 0.38 | negative \<Rightarrow> 0.30 | neutral \<Rightarrow> 0.32)"
    by (auto simp add: classProbs_def probsStep_def mapModelLabel_examples
          Let_def fun_eq_iff split: Sentiment.splits)
  have b: "classProbs [(''LABEL_0'', Some 0.7), (''LABEL_1'', Some 0.2), (''LABEL_2'', Some 0.1)]
             = (\<lambda>s. case s of positive \<Rightarrow> 0.1 | negative \<Rightarrow> 0.7 | neutral \<Rightarrow> 0.2)"
    by (auto simp add: classProbs_def probsStep_def mapModelLabel_examples
          Let_def fun_eq_iff split: Sentiment.splits)
  have c: "classProbs [(''Neutral'', Some 0.5), (''Positive'', Some 0.26), (''Negative'', Some 0.24)]
             = (\<lambda>s. case s of positive \<Rightarrow> 0.26 | negative \<Rightarrow> 0.24 | neutral \<Rightarrow> 0.5)"
    by (auto simp add: classProbs_def probsStep_def mapModelLabel_examples
          Let_def fun_eq_iff split: Sentiment.splits)
  note t1 = scoreSentimentModel_spec [of "[(''positive'', Some 0.38), (''neutral'', Some 0.32), (''negative'', Some 0.30)]", unfolded a]
  note t2 = scoreSentimentModel_spec [of "[(''LABEL_0'', Some 0.7), (''LABEL_1'', Some 0.2), (''LABEL_2'', Some 0.1)]", unfolded b]
  note t3 = scoreSentimentModel_spec [of "[(''Neutral'', Some 0.5), (''Positive'', Some 0.26), (''Negative'', Some 0.24)]", unfolded c]
  show ?thesis using t1 t2 t3 by (simp add: Math_sign_def)
qed

subsection \<open>Combining lexicon and model\<close>

lemma scoreSentimentModel_wellformed:
  assumes "scoreSentimentModel r = Some m"
  shows "(label m = neutral \<longleftrightarrow> score m = 0)
       \<and> (label m = positive \<longleftrightarrow> score m > 0)
       \<and> (label m = negative \<longleftrightarrow> score m < 0)"
proof -
  obtain p where m: "m = scoreFromProbs p"
    using assms by (auto simp add: scoreSentimentModel_def split: option.splits if_splits)
  show ?thesis unfolding m
    by (auto simp add: scoreFromProbs_def directional_def Let_def max_def)
qed

text \<open>
  Claim C4. The combined sentiment is the lexicon score when there is no model score;
  the lexicon score when the model's label is neutral and the lexicon score is not 0;
  the model score when the lexicon score is 0; and, these cases apart, the shared sign
  times the larger magnitude when both scores are non-zero with the same sign, and
  whichever of the two has the larger magnitude when their signs are opposite (the model
  score on a tie). The three examples of the specification are instances. A model score
  with a neutral label always has score 0 (\<open>scoreSentimentModel_wellformed\<close>), so the
  cases are exhaustive and disjoint on the scores the program produces.
\<close>

theorem combineSentiments_spec:
  "combineSentiments None L = L
   \<and> (label M = neutral \<and> score L \<noteq> 0 \<longrightarrow> combineSentiments (Some M) L = L)
   \<and> (score L = 0 \<longrightarrow> combineSentiments (Some M) L = M)
   \<and> (label M \<noteq> neutral \<and> score M \<noteq> 0 \<and> score L \<noteq> 0
        \<and> Math_sign (score M) = Math_sign (score L) \<longrightarrow>
        combineSentiments (Some M) L
          = \<lparr>label = (if score M > 0 then positive else negative),
             score = Math_sign (score M) * max \<bar>score M\<bar> \<bar>score L\<bar>\<rparr>)
   \<and> (label M \<noteq> neutral \<and> score M * score L < 0 \<longrightarrow>
        combineSentiments (Some M) L = (if \<bar>score M\<bar> \<ge> \<bar>score L\<bar> then M else L))
   \<and> combineSentiments (Some \<lparr>label = neutral, score = 0\<rparr>) \<lparr>label = positive, score = 2\<rparr>
        = \<lparr>label = positive, score = 2\<rparr>
   \<and> combineSentiments (Some \<lparr>label = negative, score = - 1.2\<rparr>) \<lparr>label = neutral, score = 0\<rparr>
        = \<lparr>label = negative, score = - 1.2\<rparr>
   \<and> combineSentiments (Some \<lparr>label = negative, score = - 3\<rparr>) \<lparr>label = positive, score = 1\<rparr>
        = \<lparr>label = negative, score = - 3\<rparr>"
proof (intro conjI impI)
  show "combineSentiments None L = L" by (simp add: combineSentiments_def)
next
  assume "label M = neutral \<and> score L \<noteq> 0"
  then show "combineSentiments (Some M) L = L" by (simp add: combineSentiments_def)
next
  assume "score L = 0"
  then show "combineSentiments (Some M) L = M" by (simp add: combineSentiments_def)
next
  assume a: "label M \<noteq> neutral \<and> score M \<noteq> 0 \<and> score L \<noteq> 0
        \<and> Math_sign (score M) = Math_sign (score L)"
  then have "labelFromScore (Math_sign (score M) * max \<bar>score M\<bar> \<bar>score L\<bar>)
               = (if score M > 0 then positive else negative)"
    by (auto simp add: labelFromScore_def Math_sign_def max_def split: if_splits)
  then show "combineSentiments (Some M) L
          = \<lparr>label = (if score M > 0 then positive else negative),
             score = Math_sign (score M) * max \<bar>score M\<bar> \<bar>score L\<bar>\<rparr>"
    using a by (simp add: combineSentiments_def Let_def)
next
  assume a: "label M \<noteq> neutral \<and> score M * score L < 0"
  then have "score L \<noteq> 0" "Math_sign (score M) \<noteq> Math_sign (score L)"
    by (auto simp add: Math_sign_def mult_less_0_iff split: if_splits)
  then show "combineSentiments (Some M) L = (if \<bar>score M\<bar> \<ge> \<bar>score L\<bar> then M else L)"
    using a by (simp add: combineSentiments_def)
qed (simp_all add: combineSentiments_def Math_sign_def)

theorem combineSentiments_spec_witness:
  "combineSentiments None \<lparr>label = negative, score = - 1\<rparr> = \<lparr>label = negative, score = - 1\<rparr>
   \<and> combineSentiments (Some \<lparr>label = neutral, score = 0\<rparr>) \<lparr>label = negative, score = - 1\<rparr>
        = \<lparr>label = negative, score = - 1\<rparr>
   \<and> combineSentiments (Some \<lparr>label = positive, score = 0.5\<rparr>) \<lparr>label = neutral, score = 0\<rparr>
        = \<lparr>label = positive, score = 0.5\<rparr>
   \<and> combineSentiments (Some \<lparr>label = positive, score = 0.5\<rparr>) \<lparr>label = positive, score = 2\<rparr>
        = \<lparr>label = positive, score = 2\<rparr>
   \<and> combineSentiments (Some \<lparr>label = negative, score = - 2.5\<rparr>) \<lparr>label = negative, score = - 1\<rparr>
        = \<lparr>label = negative, score = - 2.5\<rparr>
   \<and> combineSentiments (Some \<lparr>label = positive, score = 0.5\<rparr>) \<lparr>label = negative, score = - 1\<rparr>
        = \<lparr>label = negative, score = - 1\<rparr>
   \<and> combineSentiments (Some \<lparr>label = positive, score = 1\<rparr>) \<lparr>label = negative, score = - 1\<rparr>
        = \<lparr>label = positive, score = 1\<rparr>"
  using combineSentiments_spec [of "\<lparr>label = negative, score = - 1\<rparr>" "\<lparr>label = neutral, score = 0\<rparr>"]
        combineSentiments_spec [of "\<lparr>label = neutral, score = 0\<rparr>" "\<lparr>label = positive, score = 0.5\<rparr>"]
        combineSentiments_spec [of "\<lparr>label = positive, score = 2\<rparr>" "\<lparr>label = positive, score = 0.5\<rparr>"]
        combineSentiments_spec [of "\<lparr>label = negative, score = - 1\<rparr>" "\<lparr>label = negative, score = - 2.5\<rparr>"]
        combineSentiments_spec [of "\<lparr>label = negative, score = - 1\<rparr>" "\<lparr>label = positive, score = 0.5\<rparr>"]
        combineSentiments_spec [of "\<lparr>label = negative, score = - 1\<rparr>" "\<lparr>label = positive, score = 1\<rparr>"]
  by (simp add: Math_sign_def)

subsection \<open>The calendar of the Date built-in\<close>












subsection \<open>The window of the day\<close>






subsection \<open>Link normalisation\<close>

lemma keepParams_idem: "keepParams (keepParams ps) = keepParams ps"
  by (simp add: keepParams_def)

lemma searchParams_stripped:
  assumes e: "URLSearchParams_parse pf [] = []"
    and p: "URLSearchParams_parse pf
              (URLSearchParams_toString pf (keepParams (searchParams pf u)))
            = keepParams (searchParams pf u)"
  shows "searchParams pf (strippedURL pf u) = keepParams (searchParams pf u)"
proof (cases "URLSearchParams_toString pf (keepParams (searchParams pf u)) = []")
  case True
  then have "keepParams (searchParams pf u) = []" using e p by simp
  then show ?thesis using True by (simp add: strippedURL_def searchParams_def Let_def)
next
  case False
  then have "url_query (strippedURL pf u)
               = Some (URLSearchParams_toString pf (keepParams (searchParams pf u)))"
    by (simp add: strippedURL_def Let_def)
  then show ?thesis using p by (simp add: searchParams_def)
qed

lemma strippedURL_idem:
  assumes "searchParams pf (strippedURL pf u) = keepParams (searchParams pf u)"
  shows "strippedURL pf (strippedURL pf u) = strippedURL pf u"
proof -
  have "strippedURL pf (strippedURL pf u)
          = (strippedURL pf u)\<lparr>url_query :=
               (if URLSearchParams_toString pf (keepParams (searchParams pf u)) = [] then None
                else Some (URLSearchParams_toString pf (keepParams (searchParams pf u)))),
               url_fragment := None\<rparr>"
    using assms by (simp add: strippedURL_def [of pf "strippedURL pf u"] Let_def keepParams_idem)
  also have "\<dots> = strippedURL pf u" by (simp add: strippedURL_def Let_def)
  finally show ?thesis .
qed

text \<open>
  Claim C5. For every input string, on a platform whose URL and parameter round trips hold
  at that string: a string that is no parseable URL is returned unchanged; the link
  returned for a parseable URL parses to a URL without fragment whose query parameters
  are those of the input whose lowered name does not start with \<open>utm_\<close>, in their order,
  the rest of the URL being the same; and normalising twice gives what normalising once
  gives.
\<close>

theorem normalizeLink_spec:
  assumes "platformRoundTrip pf url"
  shows "(URL_parse pf url = None \<longrightarrow> normalizeLink pf url = url)
       \<and> (\<forall>u. URL_parse pf url = Some u \<longrightarrow>
             (\<exists>u'. URL_parse pf (normalizeLink pf url) = Some u'
                  \<and> url_fragment u' = None
                  \<and> searchParams pf u'
                      = filter (\<lambda>(k, v). \<not> startsWith (toLowerCase k) ''utm_'') (searchParams pf u)
                  \<and> url_rest u' = url_rest u \<and> hostname u' = hostname u))
       \<and> normalizeLink pf (normalizeLink pf url) = normalizeLink pf url"
proof (cases "URL_parse pf url")
  case None
  then show ?thesis by (simp add: normalizeLink_def)
next
  case (Some u)
  have e: "URLSearchParams_parse pf [] = []"
    using assms by (simp add: platformRoundTrip_def)
  have r: "URL_parse pf (URL_toString pf (strippedURL pf u)) = Some (strippedURL pf u)"
    using assms Some by (simp add: platformRoundTrip_def)
  have p: "URLSearchParams_parse pf
             (URLSearchParams_toString pf (keepParams (searchParams pf u)))
           = keepParams (searchParams pf u)"
    using assms Some by (simp add: platformRoundTrip_def)
  have n: "normalizeLink pf url = URL_toString pf (strippedURL pf u)"
    using Some by (simp add: normalizeLink_def)
  have sp: "searchParams pf (strippedURL pf u) = keepParams (searchParams pf u)"
    using e p by (rule searchParams_stripped)
  have i: "strippedURL pf (strippedURL pf u) = strippedURL pf u"
    using sp by (rule strippedURL_idem)
  have idem: "normalizeLink pf (normalizeLink pf url) = normalizeLink pf url"
    unfolding n by (simp add: normalizeLink_def r i)
  have f: "url_fragment (strippedURL pf u) = None" "url_rest (strippedURL pf u) = url_rest u"
    "hostname (strippedURL pf u) = hostname u"
    by (simp_all add: strippedURL_def Let_def)
  have "\<exists>u'. URL_parse pf (normalizeLink pf url) = Some u'
              \<and> url_fragment u' = None
              \<and> searchParams pf u'
                  = filter (\<lambda>(k, v). \<not> startsWith (toLowerCase k) ''utm_'') (searchParams pf u)
              \<and> url_rest u' = url_rest u \<and> hostname u' = hostname u"
    using r sp f unfolding n keepParams_def by blast
  then show ?thesis using Some idem by simp
qed

text \<open>The reference platform on a link with two tracking parameters and a fragment.\<close>

lemma ref_example:
  "platformRoundTrip refPlatform ''https://www.coindesk.com/markets/btc?utm_source=rss&id=7&UTM_medium=x&ref=a+b#top''"
  "refURL_parse ''https://www.coindesk.com/markets/btc?utm_source=rss&id=7&UTM_medium=x&ref=a+b#top''
     = Some \<lparr>url_rest = ''https://www.coindesk.com/markets/btc'', hostname = ''www.coindesk.com'',
             url_query = Some ''utm_source=rss&id=7&UTM_medium=x&ref=a+b'', url_fragment = Some ''top''\<rparr>"
  "normalizeLink refPlatform ''https://www.coindesk.com/markets/btc?utm_source=rss&id=7&UTM_medium=x&ref=a+b#top''
     = ''https://www.coindesk.com/markets/btc?id=7&ref=a+b''"
  "refURL_parse ''https://www.coindesk.com/markets/btc?id=7&ref=a+b''
     = Some \<lparr>url_rest = ''https://www.coindesk.com/markets/btc'', hostname = ''www.coindesk.com'',
             url_query = Some ''id=7&ref=a+b'', url_fragment = None\<rparr>"
  "refParams_parse ''utm_source=rss&id=7&UTM_medium=x&ref=a+b''
     = [(''utm_source'', ''rss''), (''id'', ''7''), (''UTM_medium'', ''x''), (''ref'', ''a b'')]"
  "refParams_parse ''id=7&ref=a+b'' = [(''id'', ''7''), (''ref'', ''a b'')]"
  "platformRoundTrip refPlatform ''not a link''"
  "refURL_parse ''not a link'' = None"
  by code_simp+

lemma refPlatform_sel:
  "URL_parse refPlatform = refURL_parse" "URL_toString refPlatform = refURL_toString"
  "URLSearchParams_parse refPlatform = refParams_parse"
  "URLSearchParams_toString refPlatform = refParams_toString"
  "Date_parse refPlatform = refDate_parse"
  by (simp_all add: refPlatform_def)

theorem normalizeLink_spec_witness:
  "normalizeLink refPlatform ''https://www.coindesk.com/markets/btc?utm_source=rss&id=7&UTM_medium=x&ref=a+b#top''
     = ''https://www.coindesk.com/markets/btc?id=7&ref=a+b''
   \<and> normalizeLink refPlatform ''https://www.coindesk.com/markets/btc?id=7&ref=a+b''
     = ''https://www.coindesk.com/markets/btc?id=7&ref=a+b''
   \<and> normalizeLink refPlatform ''not a link'' = ''not a link''"
  using normalizeLink_spec [OF ref_example(1), THEN conjunct2, THEN conjunct2]
        normalizeLink_spec [OF ref_example(7), THEN conjunct1]
  by (simp add: ref_example(3) ref_example(8) refPlatform_sel)

subsection \<open>One item\<close>

lemma processRaw_cases:
  "processRaw cfg pf world W r e =
     (if passesFilters pf world W e \<and> rawLink pf e \<notin> seen r
      then (case (rawDate pf e, W) of
              (Some d, Some w) \<Rightarrow>
                scoreAndPush cfg world w (rawLink pf e) d (rawTitle e) (rawSnippet e)
                  (rawSource pf e) r
            | _ \<Rightarrow> r)
      else r)"
proof (cases e)
  case (FromFeed item)
  show ?thesis unfolding FromFeed
    by (simp add: processRaw_def processItem_def passesFilters_def rawLink_def rawDate_def
          rawTitle_def rawSnippet_def rawSource_def Let_def split: option.splits)
next
  case (FromPost post)
  show ?thesis unfolding FromPost
    by (auto simp add: processRaw_def processPost_def passesFilters_def rawLink_def rawDate_def
          rawTitle_def rawSnippet_def rawSource_def Let_def withinWindow_def
          split: option.splits)
qed

lemma passesFilters_date:
  assumes "passesFilters pf world W e"
  shows "\<exists>d w. rawDate pf e = Some d \<and> W = Some w
               \<and> 0 \<le> toMinutesAgo d (clock_now world)
               \<and> toMinutesAgo d (clock_now world) \<le> real_of_int w"
  using assms
  by (auto simp add: passesFilters_def withinWindow_def Let_def split: option.splits)

lemma scoreAndPush_unfold:
  "scoreAndPush cfg world w lnk d ttl snippet src r =
     (case accumulate (label (sentimentFor cfg world lnk ttl snippet r))
             (score (sentimentFor cfg world lnk ttl snippet r))
             (weightForSource src * decayWeight d (clock_now world) (real_of_int w))
             (r\<lparr>cache :=
                  (case fst (getCachedSentiment lnk (clock_now world) (cache r)) of
                     Some s \<Rightarrow> snd (getCachedSentiment lnk (clock_now world) (cache r))
                   | None \<Rightarrow>
                       setCachedSentiment lnk (sentimentFor cfg world lnk ttl snippet r)
                         (clock_now world)
                         (snd (getCachedSentiment lnk (clock_now world) (cache r)))),
                seen := insert lnk (seen r)\<rparr>) of
        (formattedWeight, r2) \<Rightarrow>
          r2\<lparr>collected := collected r2 @
               [\<lparr>item_title = (case orElse ttl None of Some t \<Rightarrow> t | None \<Rightarrow> ''(untitled)''),
                 item_link = lnk, item_pubDate = d, item_source = src,
                 item_sentiment = label (sentimentFor cfg world lnk ttl snippet r),
                 item_score = score (sentimentFor cfg world lnk ttl snippet r),
                 item_weight = formattedWeight\<rparr>]\<rparr>)"
proof -
  obtain hit c1 where g: "getCachedSentiment lnk (clock_now world) (cache r) = (hit, c1)"
    by (cases "getCachedSentiment lnk (clock_now world) (cache r)")
  show ?thesis
    by (cases hit) (simp_all add: scoreAndPush_def sentimentFor_def g Let_def)
qed

lemma scoreAndPush_fields:
  fixes cfg world w lnk d ttl snippet src r
  defines "s \<equiv> sentimentFor cfg world lnk ttl snippet r"
  defines "f \<equiv> weightForSource src * decayWeight d (clock_now world) (real_of_int w)"
  defines "r' \<equiv> scoreAndPush cfg world w lnk d ttl snippet src r"
  shows "seen r' = insert lnk (seen r)"
    and "collected r' = collected r @
           [\<lparr>item_title = (case orElse ttl None of Some t \<Rightarrow> t | None \<Rightarrow> ''(untitled)''),
             item_link = lnk, item_pubDate = d, item_source = src,
             item_sentiment = label s, item_score = score s,
             item_weight = toFixed4 (score s * f)\<rparr>]"
    and "posW r' = posW r + (if label s = positive then clamp 0.5 2 \<bar>score s\<bar> * f else 0)"
    and "negW r' = negW r + (if label s = negative then clamp 0.5 2 \<bar>score s\<bar> * f else 0)"
    and "neuW r' = neuW r + (if label s = neutral then clamp 0.5 2 \<bar>score s\<bar> * f else 0)"
    and "posCount r' = posCount r + (if label s = positive then 1 else 0)"
    and "negCount r' = negCount r + (if label s = negative then 1 else 0)"
    and "neuCount r' = neuCount r + (if label s = neutral then 1 else 0)"
  unfolding r'_def scoreAndPush_unfold s_def [symmetric] f_def [symmetric]
  by (cases "label s"; simp add: accumulate_def Let_def)+





subsection \<open>The run\<close>

lemma processRaw_skip:
  "\<not> passesFilters pf world W e \<or> rawLink pf e \<in> seen r \<Longrightarrow> processRaw cfg pf world W r e = r"
  by (auto simp add: processRaw_cases)

lemma processRaw_take:
  assumes "passesFilters pf world W e" and "rawLink pf e \<notin> seen r"
  shows "\<exists>d w. rawDate pf e = Some d \<and> W = Some w
           \<and> processRaw cfg pf world W r e
               = scoreAndPush cfg world w (rawLink pf e) d (rawTitle e) (rawSnippet e)
                   (rawSource pf e) r"
  using assms passesFilters_date [OF assms(1)] by (auto simp add: processRaw_cases)

lemma processRaw_seen:
  "seen (processRaw cfg pf world W r e)
     = (if passesFilters pf world W e then insert (rawLink pf e) (seen r) else seen r)"
proof (cases "passesFilters pf world W e \<and> rawLink pf e \<notin> seen r")
  case True
  then obtain d w where "processRaw cfg pf world W r e
      = scoreAndPush cfg world w (rawLink pf e) d (rawTitle e) (rawSnippet e) (rawSource pf e) r"
    using processRaw_take by blast
  then show ?thesis using True by (simp add: scoreAndPush_fields)
next
  case False
  then have "processRaw cfg pf world W r e = r" using processRaw_skip by blast
  then show ?thesis using False by auto
qed

lemma processRaw_links:
  "map item_link (collected (processRaw cfg pf world W r e))
     = map item_link (collected r)
       @ (if passesFilters pf world W e \<and> rawLink pf e \<notin> seen r then [rawLink pf e] else [])"
proof (cases "passesFilters pf world W e \<and> rawLink pf e \<notin> seen r")
  case True
  then obtain d w where "processRaw cfg pf world W r e
      = scoreAndPush cfg world w (rawLink pf e) d (rawTitle e) (rawSnippet e) (rawSource pf e) r"
    using processRaw_take by blast
  then show ?thesis using True by (simp add: scoreAndPush_fields)
next
  case False
  then have "processRaw cfg pf world W r e = r" using processRaw_skip by blast
  then show ?thesis using False by auto
qed

text \<open>The links seen are those of the collected items, and no two collected items share one.\<close>

lemma foldl_processRaw_inv:
  assumes "seen r = set (map item_link (collected r))"
    and "distinct (map item_link (collected r))"
  shows "seen (foldl (processRaw cfg pf world W) r es)
           = set (map item_link (collected (foldl (processRaw cfg pf world W) r es)))
       \<and> distinct (map item_link (collected (foldl (processRaw cfg pf world W) r es)))"
  using assms
proof (induction es arbitrary: r)
  case Nil
  then show ?case by simp
next
  case (Cons e es)
  have "seen (processRaw cfg pf world W r e)
          = set (map item_link (collected (processRaw cfg pf world W r e)))"
    using Cons.prems by (auto simp add: processRaw_seen processRaw_links)
  moreover have "distinct (map item_link (collected (processRaw cfg pf world W r e)))"
    using Cons.prems by (auto simp add: processRaw_links)
  ultimately show ?case using Cons.IH by simp
qed

lemma foldl_processRaw_seen:
  "seen (foldl (processRaw cfg pf world W) r es)
     = seen r \<union> rawLink pf ` {e \<in> set es. passesFilters pf world W e}"
proof (induction es arbitrary: r)
  case Nil
  show ?case by simp
next
  case (Cons e es)
  show ?case by (auto simp add: Cons.IH processRaw_seen)
qed

lemma runItems_foldl:
  "runItems cfg pf world W proc = runBefore cfg pf world W proc (length (rawEntries cfg world))"
proof -
  have a: "processFeeds cfg pf world W r results
             = foldl (processRaw cfg pf world W) r
                 (concat (map (\<lambda>result. case result of None \<Rightarrow> []
                                         | Some its \<Rightarrow> map FromFeed its) results))"
    for r results
  proof (induction results arbitrary: r)
    case Nil
    show ?case by (simp add: processFeeds_def)
  next
    case (Cons x xs)
    have i: "foldl (processItem cfg pf world W) r its
               = foldl (processRaw cfg pf world W) r (map FromFeed its)" for r its
      by (induction its arbitrary: r) (simp_all add: processRaw_def)
    show ?case
      using Cons.IH by (cases x) (simp_all add: processFeeds_def i)
  qed
  have p: "foldl (processPost cfg pf world W) r posts
             = foldl (processRaw cfg pf world W) r (map FromPost posts)" for r posts
    by (induction posts arbitrary: r) (simp_all add: processRaw_def)
  have b: "processCryptoPanic cfg pf world W r
             = foldl (processRaw cfg pf world W) r
                 (if orElse (CRYPTOPANIC_TOKEN cfg) None = None then []
                  else (case cryptoPanic world of None \<Rightarrow> [] | Some posts \<Rightarrow> map FromPost posts))"
    for r
    by (simp add: processCryptoPanic_def p split: option.splits)
  show ?thesis
    by (simp add: runItems_def runBefore_def rawEntries_def a b)
qed

lemma runBefore_Suc:
  assumes "j < length (rawEntries cfg world)"
  shows "runBefore cfg pf world W proc (Suc j)
           = processRaw cfg pf world W (runBefore cfg pf world W proc j)
               (rawEntries cfg world ! j)"
  using assms by (simp add: runBefore_def take_Suc_conv_app_nth)

lemma runBefore_inv:
  "seen (runBefore cfg pf world W proc j)
     = set (map item_link (collected (runBefore cfg pf world W proc j)))
   \<and> distinct (map item_link (collected (runBefore cfg pf world W proc j)))"
  unfolding runBefore_def
  by (rule foldl_processRaw_inv) (simp_all add: emptyRun_def)

lemma runBefore_seen:
  "seen (runBefore cfg pf world W proc j)
     = rawLink pf ` {e \<in> set (take j (rawEntries cfg world)). passesFilters pf world W e}"
  unfolding runBefore_def by (simp add: foldl_processRaw_seen emptyRun_def)

lemma sorted_items_distinct:
  assumes "distinct (map item_link xs)"
  shows "distinct (map item_link (sort_key k xs))"
proof -
  have "distinct xs" "inj_on item_link (set xs)" using assms by (simp_all add: distinct_map)
  then show ?thesis by (simp add: distinct_map)
qed

subsection \<open>First-seen links\<close>

text \<open>
  Claim C6, as amended. In one run the links of the output items are pairwise distinct
  (before and after the sort), and they are the normalised links of the entries that pass
  the filters. Among entries whose links normalise to the same text, an entry after one
  that passes the filters is skipped (the run is left as it was); an entry that does not
  pass the filters is skipped; and the first entry that passes the filters adds one output
  item with that link. The entries are the items of the fulfilled feeds in feed order,
  followed by the posts of the optional source.
\<close>

theorem dedup_spec:
  "distinct (map item_link (collected (runItems cfg pf world W proc)))
   \<and> distinct (map item_link (items (responseOfRun cfg world W (runItems cfg pf world W proc))))
   \<and> set (map item_link (collected (runItems cfg pf world W proc)))
       = rawLink pf ` {e \<in> set (rawEntries cfg world). passesFilters pf world W e}
   \<and> (\<forall>i j. i < j \<and> j < length (rawEntries cfg world)
          \<and> passesFilters pf world W (rawEntries cfg world ! i)
          \<and> rawLink pf (rawEntries cfg world ! i) = rawLink pf (rawEntries cfg world ! j)
          \<longrightarrow> runBefore cfg pf world W proc (Suc j) = runBefore cfg pf world W proc j)
   \<and> (\<forall>j. j < length (rawEntries cfg world)
          \<and> \<not> passesFilters pf world W (rawEntries cfg world ! j)
          \<longrightarrow> runBefore cfg pf world W proc (Suc j) = runBefore cfg pf world W proc j)
   \<and> (\<forall>j. j < length (rawEntries cfg world)
          \<and> passesFilters pf world W (rawEntries cfg world ! j)
          \<and> (\<forall>i<j. passesFilters pf world W (rawEntries cfg world ! i)
                 \<longrightarrow> rawLink pf (rawEntries cfg world ! i) \<noteq> rawLink pf (rawEntries cfg world ! j))
          \<longrightarrow> map item_link (collected (runBefore cfg pf world W proc (Suc j)))
              = map item_link (collected (runBefore cfg pf world W proc j))
                @ [rawLink pf (rawEntries cfg world ! j)])"
proof (intro conjI allI impI)
  show d: "distinct (map item_link (collected (runItems cfg pf world W proc)))"
    using runBefore_inv by (simp add: runItems_foldl)
  show "distinct (map item_link (items (responseOfRun cfg world W (runItems cfg pf world W proc))))"
    using d by (simp add: responseOfRun_def buildResponse_def Let_def sorted_items_distinct
          split: prod.splits)
  show "set (map item_link (collected (runItems cfg pf world W proc)))
       = rawLink pf ` {e \<in> set (rawEntries cfg world). passesFilters pf world W e}"
    using runBefore_inv [of cfg pf world W proc "length (rawEntries cfg world)"]
          runBefore_seen [of cfg pf world W proc "length (rawEntries cfg world)"]
    by (simp add: runItems_foldl)
next
  fix i j
  assume a: "i < j \<and> j < length (rawEntries cfg world)
          \<and> passesFilters pf world W (rawEntries cfg world ! i)
          \<and> rawLink pf (rawEntries cfg world ! i) = rawLink pf (rawEntries cfg world ! j)"
  then have "rawEntries cfg world ! i \<in> set (take j (rawEntries cfg world))"
    by (metis in_set_conv_nth length_take min_less_iff_conj nth_take order_less_trans)
  then have "rawLink pf (rawEntries cfg world ! i)
               \<in> rawLink pf ` {e \<in> set (take j (rawEntries cfg world)). passesFilters pf world W e}"
    using a by blast
  then have "rawLink pf (rawEntries cfg world ! j) \<in> seen (runBefore cfg pf world W proc j)"
    using a by (simp add: runBefore_seen)
  then show "runBefore cfg pf world W proc (Suc j) = runBefore cfg pf world W proc j"
    using a by (simp add: runBefore_Suc processRaw_skip)
next
  fix j
  assume "j < length (rawEntries cfg world)
          \<and> \<not> passesFilters pf world W (rawEntries cfg world ! j)"
  then show "runBefore cfg pf world W proc (Suc j) = runBefore cfg pf world W proc j"
    by (simp add: runBefore_Suc processRaw_skip)
next
  fix j
  assume a: "j < length (rawEntries cfg world)
          \<and> passesFilters pf world W (rawEntries cfg world ! j)
          \<and> (\<forall>i<j. passesFilters pf world W (rawEntries cfg world ! i)
                 \<longrightarrow> rawLink pf (rawEntries cfg world ! i) \<noteq> rawLink pf (rawEntries cfg world ! j))"
  have "rawLink pf (rawEntries cfg world ! j) \<notin> seen (runBefore cfg pf world W proc j)"
  proof
    assume "rawLink pf (rawEntries cfg world ! j) \<in> seen (runBefore cfg pf world W proc j)"
    then obtain e where e: "e \<in> set (take j (rawEntries cfg world))"
      "passesFilters pf world W e" "rawLink pf e = rawLink pf (rawEntries cfg world ! j)"
      by (auto simp add: runBefore_seen)
    then obtain i where "i < j" "e = rawEntries cfg world ! i"
      using a by (auto simp add: in_set_conv_nth)
    then show False using a e by auto
  qed
  then show "map item_link (collected (runBefore cfg pf world W proc (Suc j)))
              = map item_link (collected (runBefore cfg pf world W proc j))
                @ [rawLink pf (rawEntries cfg world ! j)]"
    using a by (simp add: runBefore_Suc processRaw_links)
qed

lemma example_entries:
  "0 < (1::nat) \<and> 1 < length (rawEntries exampleConfig exampleWorld)
   \<and> passesFilters refPlatform exampleWorld (Some 330) (rawEntries exampleConfig exampleWorld ! 0)
   \<and> rawLink refPlatform (rawEntries exampleConfig exampleWorld ! 0)
       = rawLink refPlatform (rawEntries exampleConfig exampleWorld ! 1)"
  by code_simp

lemma example_links:
  "map item_link (collected (runItems exampleConfig refPlatform exampleWorld (Some 330) exampleProcess))
     = [''https://www.coindesk.com/markets/btc'', ''https://cointelegraph.com/news/hack'',
        ''https://example.org/update'']"
  by code_simp

theorem dedup_spec_witness:
  "passesFilters refPlatform exampleWorld (Some 330) (rawEntries exampleConfig exampleWorld ! 0)
   \<and> rawLink refPlatform (rawEntries exampleConfig exampleWorld ! 0)
       = rawLink refPlatform (rawEntries exampleConfig exampleWorld ! 1)
   \<and> runBefore exampleConfig refPlatform exampleWorld (Some 330) exampleProcess (Suc 1)
       = runBefore exampleConfig refPlatform exampleWorld (Some 330) exampleProcess 1
   \<and> distinct (map item_link
        (collected (runItems exampleConfig refPlatform exampleWorld (Some 330) exampleProcess)))
   \<and> map item_link (collected (runItems exampleConfig refPlatform exampleWorld (Some 330) exampleProcess))
     = [''https://www.coindesk.com/markets/btc'', ''https://cointelegraph.com/news/hack'',
        ''https://example.org/update'']"
proof -
  note t = dedup_spec [of exampleConfig refPlatform exampleWorld "Some 330" exampleProcess]
  have "runBefore exampleConfig refPlatform exampleWorld (Some 330) exampleProcess (Suc 1)
       = runBefore exampleConfig refPlatform exampleWorld (Some 330) exampleProcess 1"
    using t [THEN conjunct2, THEN conjunct2, THEN conjunct2, THEN conjunct1, rule_format,
             OF example_entries] .
  then show ?thesis
    using t [THEN conjunct1] example_entries example_links by simp
qed

text \<open>
  The claim as it was stated fails when the first entry of a link does not pass the date
  filter: a link is marked as seen only when its item is taken (line 765, after the
  filters), so the second entry of the same link is the one that gives the output item
  and the contribution.
\<close>

theorem dedup_first_counterexample:
  "rawLink refPlatform (rawEntries exampleConfig lateWorld ! 0)
     = rawLink refPlatform (rawEntries exampleConfig lateWorld ! 1)
   \<and> map rawTitle (rawEntries exampleConfig lateWorld) = [Some ''first'', Some ''second'']
   \<and> (case fst (handler exampleConfig refPlatform lateWorld getRequest exampleProcess) of
         Status200 resp \<Rightarrow>
           map item_title (items resp) = [''second'']
           \<and> counts resp = \<lparr>count_positive = 0, count_negative = 0, count_neutral = 1\<rparr>
       | _ \<Rightarrow> False)"
  by code_simp

subsection \<open>The response\<close>

lemma weightForSource_nonneg: "0 \<le> weightForSource src"
  by (simp add: weightForSource_def SOURCE_WEIGHTS_def)

lemma decayWeight_nonneg: "0 \<le> decayWeight d now W"
proof -
  have "(0::real) \<le> clamp 0.7 1 x" for x by (simp add: clamp_def)
  then show ?thesis by (simp add: decayWeight_def linearTimeDecay_def Let_def)
qed

lemma clamp_boost_nonneg: "0 \<le> clamp 0.5 2 x"
  by (simp add: clamp_def)

lemma processRaw_nonneg:
  assumes "0 \<le> posW r \<and> 0 \<le> negW r \<and> 0 \<le> neuW r"
  shows "0 \<le> posW (processRaw cfg pf world W r e) \<and> 0 \<le> negW (processRaw cfg pf world W r e)
       \<and> 0 \<le> neuW (processRaw cfg pf world W r e)"
proof (cases "passesFilters pf world W e \<and> rawLink pf e \<notin> seen r")
  case True
  then obtain d w where p: "processRaw cfg pf world W r e
      = scoreAndPush cfg world w (rawLink pf e) d (rawTitle e) (rawSnippet e) (rawSource pf e) r"
    using processRaw_take by blast
  have "0 \<le> clamp 0.5 2 x * (weightForSource src * decayWeight d now W')" for x src now W'
    using weightForSource_nonneg decayWeight_nonneg clamp_boost_nonneg by simp
  then show ?thesis using assms unfolding p by (simp add: scoreAndPush_fields)
next
  case False
  then have "processRaw cfg pf world W r e = r" using processRaw_skip by blast
  then show ?thesis using assms by simp
qed

lemma foldl_processRaw_nonneg:
  assumes "0 \<le> posW r \<and> 0 \<le> negW r \<and> 0 \<le> neuW r"
  shows "0 \<le> posW (foldl (processRaw cfg pf world W) r es)
       \<and> 0 \<le> negW (foldl (processRaw cfg pf world W) r es)
       \<and> 0 \<le> neuW (foldl (processRaw cfg pf world W) r es)"
  using assms
proof (induction es arbitrary: r)
  case Nil
  then show ?case by simp
next
  case (Cons e es)
  show ?case using Cons.IH [OF processRaw_nonneg [OF Cons.prems]] by simp
qed

lemma runItems_nonneg:
  "0 \<le> posW (runItems cfg pf world W proc) \<and> 0 \<le> negW (runItems cfg pf world W proc)
   \<and> 0 \<le> neuW (runItems cfg pf world W proc)"
  unfolding runItems_foldl runBefore_def
  by (rule foldl_processRaw_nonneg) (simp add: emptyRun_def)

lemma buildResponse_fields:
  "windowMinutes (buildResponse c W tz its pW nW uW pC nC uC) = W"
  "timezoneOffsetMinutes (buildResponse c W tz its pW nW uW pC nC uC) = tz"
  "generatedAt (buildResponse c W tz its pW nW uW pC nC uC) = c"
  "counts (buildResponse c W tz its pW nW uW pC nC uC)
     = \<lparr>count_positive = pC, count_negative = nC, count_neutral = uC\<rparr>"
  "weights (buildResponse c W tz its pW nW uW pC nC uC)
     = \<lparr>weights_posW = pW, weights_negW = nW, weights_neuW = uW\<rparr>"
  "items (buildResponse c W tz its pW nW uW pC nC uC) = its"
  "longPct (buildResponse c W tz its pW nW uW pC nC uC)
     = (if pW + nW > 0 then Math_round (pW / (pW + nW) * 100) else 0)"
  "shortPct (buildResponse c W tz its pW nW uW pC nC uC)
     = (if pW + nW > 0 then 100 - Math_round (pW / (pW + nW) * 100) else 0)"
  "recommendation (buildResponse c W tz its pW nW uW pC nC uC)
     = (if pW > nW * 1.05 then LONG else if nW > pW * 1.05 then SHORT else NEUTRAL)"
  by (simp_all add: buildResponse_def Let_def)

lemma longPct_range:
  assumes "0 \<le> pW" "0 \<le> nW" "0 < pW + nW"
  shows "0 \<le> Math_round (pW / (pW + nW) * 100) \<and> Math_round (pW / (pW + nW) * 100) \<le> 100"
proof -
  have "0 \<le> pW / (pW + nW)" "pW / (pW + nW) \<le> 1" using assms by simp_all
  then have "0 \<le> pW / (pW + nW) * 100 + 1 / 2" "pW / (pW + nW) * 100 + 1 / 2 < 101"
    by simp_all
  then show ?thesis unfolding Math_round_def by (simp add: floor_less_iff le_floor_iff)
qed

text \<open>
  Claim C1. For every run, with \<open>posW\<close> and \<open>negW\<close> the sums of the run: when
  \<open>posW + negW > 0\<close> the response has \<open>longPct = round(posW / (posW + negW) * 100)\<close> and
  \<open>shortPct = 100 - longPct\<close>; when \<open>posW + negW = 0\<close> both are 0; the recommendation is
  LONG exactly when \<open>posW > 1.05 * negW\<close>, SHORT exactly when \<open>negW > 1.05 * posW\<close>, and
  NEUTRAL otherwise. Sums of 60 and 40 give 60, 40 and LONG; sums of 50 and 49 give
  NEUTRAL.
\<close>

theorem response_spec:
  assumes r: "r = runItems cfg pf world W proc"
    and resp: "resp = responseOfRun cfg world W r"
  shows "weights resp = \<lparr>weights_posW = posW r, weights_negW = negW r, weights_neuW = neuW r\<rparr>
       \<and> (posW r + negW r > 0 \<longrightarrow>
            longPct resp = Math_round (posW r / (posW r + negW r) * 100)
          \<and> shortPct resp = 100 - longPct resp
          \<and> longPct resp + shortPct resp = 100)
       \<and> (posW r + negW r = 0 \<longrightarrow> longPct resp = 0 \<and> shortPct resp = 0)
       \<and> (recommendation resp = LONG \<longleftrightarrow> posW r > 1.05 * negW r)
       \<and> (recommendation resp = SHORT \<longleftrightarrow> negW r > 1.05 * posW r)
       \<and> (recommendation resp = NEUTRAL \<longleftrightarrow>
            \<not> posW r > 1.05 * negW r \<and> \<not> negW r > 1.05 * posW r)
       \<and> 0 \<le> longPct resp \<and> longPct resp \<le> 100
       \<and> longPct (buildResponse c W' tz its 60 40 uW pC nC uC) = 60
       \<and> shortPct (buildResponse c W' tz its 60 40 uW pC nC uC) = 40
       \<and> recommendation (buildResponse c W' tz its 60 40 uW pC nC uC) = LONG
       \<and> recommendation (buildResponse c W' tz its 50 49 uW pC nC uC) = NEUTRAL"
proof -
  have n: "0 \<le> posW r" "0 \<le> negW r"
    using runItems_nonneg [of cfg pf world W proc] by (simp_all add: r)
  have x: "\<not> (posW r > negW r * 1.05 \<and> negW r > posW r * 1.05)"
    using n by auto
  have g: "0 \<le> longPct resp \<and> longPct resp \<le> 100"
    using longPct_range [OF n] by (simp add: resp responseOfRun_def buildResponse_fields)
  have e: "Math_round 60 = 60" by (simp add: Math_round_def)
  show ?thesis
    using n x g
    by (simp add: resp responseOfRun_def buildResponse_fields e mult.commute)
qed

lemma example_sums:
  "posW (runItems exampleConfig refPlatform exampleWorld (Some 330) exampleProcess) = 2461 / 1100
   \<and> negW (runItems exampleConfig refPlatform exampleWorld (Some 330) exampleProcess) = 17 / 10
   \<and> neuW (runItems exampleConfig refPlatform exampleWorld (Some 330) exampleProcess) = 1 / 2"
  by code_simp

theorem response_spec_witness:
  "longPct (responseOfRun exampleConfig exampleWorld (Some 330)
      (runItems exampleConfig refPlatform exampleWorld (Some 330) exampleProcess)) = 57
   \<and> shortPct (responseOfRun exampleConfig exampleWorld (Some 330)
      (runItems exampleConfig refPlatform exampleWorld (Some 330) exampleProcess)) = 43
   \<and> recommendation (responseOfRun exampleConfig exampleWorld (Some 330)
      (runItems exampleConfig refPlatform exampleWorld (Some 330) exampleProcess)) = LONG"
  using response_spec [OF refl refl, of exampleConfig exampleWorld "Some 330" refPlatform exampleProcess]
  by (simp add: example_sums Math_round_def)

subsection \<open>The response cache\<close>

text \<open>
  Claim C9. On a hit of the response cache (a positive time to live, a cached payload
  younger than it, no parameter \<open>force\<close>) a GET request is answered with the cached payload
  in which \<open>windowMinutes\<close> is computed anew from the current instant and
  \<open>timezoneOffsetMinutes\<close> is the configured offset (the cached one when the configured
  offset is not finite); items, counts, weights, percentages, recommendation and
  \<open>generatedAt\<close> are those of the cached payload, and the process, its cache slot
  included, is left as it was.
\<close>

theorem cache_hit_frame:
  assumes get: "req_method req = ''GET''"
    and ttl: "RESPONSE_CACHE_TTL_MS cfg > 0"
    and noforce: "query req ''force'' = None"
    and slot: "responseCache proc = Some rc"
    and fresh: "real_of_int (clock_now world - timestamp rc) < RESPONSE_CACHE_TTL_MS cfg"
  shows "\<exists>resp.
           handler cfg pf world req proc = (Status200 resp, proc)
         \<and> resp = (payload rc)
              \<lparr>windowMinutes :=
                 handlerWindowMinutes (clock_now world) (TIMEZONE_OFFSET_MINUTES cfg),
               timezoneOffsetMinutes :=
                 (case TIMEZONE_OFFSET_MINUTES cfg of
                    Some x \<Rightarrow> x
                  | None \<Rightarrow> timezoneOffsetMinutes (payload rc))\<rparr>
         \<and> items resp = items (payload rc)
         \<and> counts resp = counts (payload rc)
         \<and> weights resp = weights (payload rc)
         \<and> longPct resp = longPct (payload rc)
         \<and> shortPct resp = shortPct (payload rc)
         \<and> recommendation resp = recommendation (payload rc)
         \<and> generatedAt resp = generatedAt (payload rc)
         \<and> windowMinutes resp
             = handlerWindowMinutes (clock_now world) (TIMEZONE_OFFSET_MINUTES cfg)
         \<and> (\<forall>x. TIMEZONE_OFFSET_MINUTES cfg = Some x \<longrightarrow> timezoneOffsetMinutes resp = x)
         \<and> responseCache (snd (handler cfg pf world req proc)) = Some rc"
proof -
  have h: "cacheHit cfg world req proc"
    using ttl noforce slot fresh by (simp add: cacheHit_def forceRefresh_def)
  have "handler cfg pf world req proc
          = (Status200 ((payload rc)
              \<lparr>windowMinutes :=
                 handlerWindowMinutes (clock_now world) (TIMEZONE_OFFSET_MINUTES cfg),
               timezoneOffsetMinutes :=
                 (case TIMEZONE_OFFSET_MINUTES cfg of
                    Some x \<Rightarrow> x
                  | None \<Rightarrow> timezoneOffsetMinutes (payload rc))\<rparr>), proc)"
    using get h slot by (simp add: handler_def Let_def)
  then show ?thesis using slot by (auto split: option.splits)
qed

lemma cached_example:
  "req_method getRequest = ''GET'' \<and> RESPONSE_CACHE_TTL_MS exampleConfig > 0
   \<and> query getRequest ''force'' = None
   \<and> responseCache cachedProcess = Some \<lparr>timestamp = 1704086990000, payload = cachedPayload\<rparr>
   \<and> real_of_int (clock_now exampleWorld
                    - timestamp \<lparr>timestamp = 1704086990000, payload = cachedPayload\<rparr>)
       < RESPONSE_CACHE_TTL_MS exampleConfig"
  by (simp add: getRequest_def RESPONSE_CACHE_TTL_MS_def exampleConfig_def cachedProcess_def
        exampleWorld_def)

lemma example_window:
  "handlerWindowMinutes (clock_now exampleWorld) (TIMEZONE_OFFSET_MINUTES exampleConfig) = Some 330"
  by code_simp

theorem cache_hit_frame_witness:
  "handler exampleConfig refPlatform exampleWorld getRequest cachedProcess
     = (Status200 (cachedPayload\<lparr>windowMinutes := Some 330, timezoneOffsetMinutes := 0\<rparr>),
        cachedProcess)"
proof -
  note e = cached_example
  from cache_hit_frame [OF e [THEN conjunct1] e [THEN conjunct2, THEN conjunct1]
      e [THEN conjunct2, THEN conjunct2, THEN conjunct1]
      e [THEN conjunct2, THEN conjunct2, THEN conjunct2, THEN conjunct1]
      e [THEN conjunct2, THEN conjunct2, THEN conjunct2, THEN conjunct2], of refPlatform]
  obtain resp where
    h: "handler exampleConfig refPlatform exampleWorld getRequest cachedProcess
          = (Status200 resp, cachedProcess)"
    and r: "resp = (payload \<lparr>timestamp = 1704086990000, payload = cachedPayload\<rparr>)
              \<lparr>windowMinutes :=
                 handlerWindowMinutes (clock_now exampleWorld)
                   (TIMEZONE_OFFSET_MINUTES exampleConfig),
               timezoneOffsetMinutes :=
                 (case TIMEZONE_OFFSET_MINUTES exampleConfig of
                    Some x \<Rightarrow> x
                  | None \<Rightarrow> timezoneOffsetMinutes
                      (payload \<lparr>timestamp = 1704086990000, payload = cachedPayload\<rparr>))\<rparr>"
    by blast
  have "resp = cachedPayload\<lparr>windowMinutes := Some 330, timezoneOffsetMinutes := 0\<rparr>"
    unfolding r example_window by (simp add: exampleConfig_def)
  then show ?thesis using h by simp
qed

text \<open>
  Claim C10. For every GET request whose query has a parameter \<open>force\<close>, whatever its
  value, there is no cache hit: the handler recomputes, its response is the one built
  from the run and does not depend on the cache slot, and the slot is overwritten when
  caching is on.
\<close>

theorem force_bypasses_cache:
  assumes get: "req_method req = ''GET''"
    and force: "query req ''force'' = Some v"
  shows "\<not> cacheHit cfg world req proc
       \<and> handler cfg pf world req proc
           = recompute cfg pf world
               (handlerWindowMinutes (clock_now world) (TIMEZONE_OFFSET_MINUTES cfg)) proc
       \<and> fst (handler cfg pf world req proc)
           = Status200
               (responseOfRun cfg world
                  (handlerWindowMinutes (clock_now world) (TIMEZONE_OFFSET_MINUTES cfg))
                  (runItems cfg pf world
                     (handlerWindowMinutes (clock_now world) (TIMEZONE_OFFSET_MINUTES cfg))
                     proc))
       \<and> fst (handler cfg pf world req proc)
           = fst (handler cfg pf world req (proc\<lparr>responseCache := None\<rparr>))
       \<and> responseCache (snd (handler cfg pf world req proc))
           = (if RESPONSE_CACHE_TTL_MS cfg > 0
              then Some \<lparr>timestamp = clock_now world,
                         payload =
                           responseOfRun cfg world
                             (handlerWindowMinutes (clock_now world)
                                (TIMEZONE_OFFSET_MINUTES cfg))
                             (runItems cfg pf world
                                (handlerWindowMinutes (clock_now world)
                                   (TIMEZONE_OFFSET_MINUTES cfg))
                                proc)\<rparr>
              else responseCache proc)"
proof -
  have n: "\<not> cacheHit cfg world req p" for p
    using force by (simp add: cacheHit_def forceRefresh_def)
  have h: "handler cfg pf world req p
             = recompute cfg pf world
                 (handlerWindowMinutes (clock_now world) (TIMEZONE_OFFSET_MINUTES cfg)) p" for p
    using get n by (simp add: handler_def Let_def)
  have i: "runItems cfg pf world W (proc\<lparr>responseCache := None\<rparr>) = runItems cfg pf world W proc"
    for W
    by (simp add: runItems_def)
  show ?thesis
    by (simp add: n h recompute_def Let_def i)
qed

lemma forced_example:
  "map item_title (items (responseOfRun exampleConfig exampleWorld (Some 330)
      (runItems exampleConfig refPlatform exampleWorld (Some 330) cachedProcess)))
     = [''Market update'', ''Bitcoin rally as ETF approved'', ''Exchange hack: funds stolen'']"
  by code_simp

theorem force_bypasses_cache_witness:
  "(case fst (handler exampleConfig refPlatform exampleWorld (forceRequest ''0'') cachedProcess) of
      Status200 resp \<Rightarrow>
        map item_title (items resp)
          = [''Market update'', ''Bitcoin rally as ETF approved'', ''Exchange hack: funds stolen'']
    | _ \<Rightarrow> False)
   \<and> (case fst (handler exampleConfig refPlatform exampleWorld (forceRequest []) cachedProcess) of
      Status200 resp \<Rightarrow>
        map item_title (items resp)
          = [''Market update'', ''Bitcoin rally as ETF approved'', ''Exchange hack: funds stolen'']
    | _ \<Rightarrow> False)
   \<and> (case fst (handler exampleConfig refPlatform exampleWorld getRequest cachedProcess) of
      Status200 resp \<Rightarrow> map item_title (items resp) = [''Cached'']
    | _ \<Rightarrow> False)"
proof -
  have a: "req_method (forceRequest v) = ''GET''" "query (forceRequest v) ''force'' = Some (Single v)"
    for v
    by (simp_all add: forceRequest_def)
  note t0 = force_bypasses_cache [where req = "forceRequest ''0''" and cfg = exampleConfig
      and world = exampleWorld and proc = cachedProcess and pf = refPlatform, OF a]
  note t1 = force_bypasses_cache [where req = "forceRequest []" and cfg = exampleConfig
      and world = exampleWorld and proc = cachedProcess and pf = refPlatform, OF a]
  have c: "fst (handler exampleConfig refPlatform exampleWorld getRequest cachedProcess)
             = Status200 (cachedPayload\<lparr>windowMinutes := Some 330, timezoneOffsetMinutes := 0\<rparr>)"
    by code_simp
  show ?thesis
    using t0 [THEN conjunct2, THEN conjunct2, THEN conjunct1]
          t1 [THEN conjunct2, THEN conjunct2, THEN conjunct1]
    by (simp add: example_window forced_example c) (simp add: cachedPayload_def)
qed

subsection \<open>The first item of the example\<close>



end
